theory Spec2Isabelle
  imports Complex_Main "HOL-Library.Log_Nat"
begin

section \<open>JavaScript values\<close>

text \<open>
  The program is browser JavaScript. Every value it receives from the backend
  (\<^verbatim>\<open>response.json()\<close>) or from local storage (\<^verbatim>\<open>JSON.parse\<close>) is a JSON value;
  \<open>JUndefined\<close> is added for absent properties and arguments. Strings are ASCII
  \<open>string\<close>s; a number is the rational it denotes (every finite double is one).
  An object is its list of own properties.
\<close>

datatype jsval =
    JUndefined
  | JNull
  | JBool bool
  | JNum rat
  | JStr string
  | JArr "jsval list"
  | JObj "(string \<times> jsval) list"

text \<open>
  Every \<^verbatim>\<open>throw\<close> of the source and every exception of the engine is a value. The
  source throws plain \<^verbatim>\<open>Error\<close> objects; the constructor records the throw site:
  \<open>ValidationError\<close> for the argument checks of the client (before any request),
  \<open>BackendError\<close> for a non-success status, \<open>ConnectivityError\<close> for a rejected or
  aborted \<^verbatim>\<open>fetch\<close>, \<open>UnexpectedShapeError\<close> for
  \<^verbatim>\<open>throw new Error('Invalid response format from API')\<close>. The string is the message.
\<close>

datatype error =
    ValidationError string
  | ConnectivityError string
  | BackendError string
  | UnexpectedShapeError string
  | TypeError string
  | SyntaxError string

definition and_then :: "error + 'a \<Rightarrow> ('a \<Rightarrow> error + 'b) \<Rightarrow> error + 'b" where
  "and_then r f = (case r of Inl e \<Rightarrow> Inl e | Inr x \<Rightarrow> f x)"

text \<open>Truthiness (\<^verbatim>\<open>ToBoolean\<close>): what \<^verbatim>\<open>!x\<close>, \<^verbatim>\<open>x || y\<close> and \<^verbatim>\<open>x && y\<close> test.\<close>

fun truthy :: "jsval \<Rightarrow> bool" where
  "truthy JUndefined = False"
| "truthy JNull = False"
| "truthy (JBool b) = b"
| "truthy (JNum r) = (r \<noteq> 0)"
| "truthy (JStr s) = (s \<noteq> [])"
| "truthy (JArr xs) = True"
| "truthy (JObj kvs) = True"

definition falsy :: "jsval \<Rightarrow> bool" where
  "falsy v = (\<not> truthy v)"

text \<open>
  Property read \<^verbatim>\<open>v.k\<close>, for the property names this program reads (none of them
  is inherited from a prototype): a \<^verbatim>\<open>TypeError\<close> on \<^verbatim>\<open>null\<close> and \<^verbatim>\<open>undefined\<close>, the own
  property of an object, \<^verbatim>\<open>undefined\<close> otherwise.
\<close>

fun getp :: "jsval \<Rightarrow> string \<Rightarrow> error + jsval" where
  "getp JUndefined k = Inl (TypeError (''Cannot read properties of undefined (reading '' @ k @ '')''))"
| "getp JNull k = Inl (TypeError (''Cannot read properties of null (reading '' @ k @ '')''))"
| "getp (JObj kvs) k = Inr (case map_of kvs k of None \<Rightarrow> JUndefined | Some v \<Rightarrow> v)"
| "getp v k = Inr JUndefined"

text \<open>
  \<^verbatim>\<open>String(v)\<close>. The decimal form of a number is the engine's; it is the parameter
  \<open>ns\<close>. A plain object prints as \<^verbatim>\<open>[object Object]\<close>, unless it has an own property
  \<^verbatim>\<open>toString\<close>: a JSON value is never callable, so the conversion finds no method
  that returns a primitive and throws. An array joins its elements with commas,
  \<^verbatim>\<open>null\<close> and \<^verbatim>\<open>undefined\<close> printing as the empty string.
\<close>

fun js_String :: "(rat \<Rightarrow> string) \<Rightarrow> jsval \<Rightarrow> error + string"
  and js_join :: "(rat \<Rightarrow> string) \<Rightarrow> jsval list \<Rightarrow> error + string" where
  "js_String ns JUndefined = Inr ''undefined''"
| "js_String ns JNull = Inr ''null''"
| "js_String ns (JBool b) = Inr (if b then ''true'' else ''false'')"
| "js_String ns (JNum r) = Inr (ns r)"
| "js_String ns (JStr s) = Inr s"
| "js_String ns (JArr xs) = js_join ns xs"
| "js_String ns (JObj kvs) =
     (if map_of kvs ''toString'' = None then Inr ''[object Object]''
      else Inl (TypeError ''Cannot convert object to primitive value''))"
| "js_join ns [] = Inr ''''"
| "js_join ns (x # xs) =
     (case (if x = JNull \<or> x = JUndefined then Inr '''' else js_String ns x) of
        Inl e \<Rightarrow> Inl e
      | Inr s \<Rightarrow>
          (if xs = [] then Inr s
           else (case js_join ns xs of Inl e \<Rightarrow> Inl e | Inr r \<Rightarrow> Inr (s @ '','' @ r))))"

text \<open>Decimal digits of a natural number, as template literals print an index or a status.\<close>

fun dec :: "nat \<Rightarrow> string" where
  "dec n = (if n < 10 then [''0123456789'' ! n] else dec (n div 10) @ [''0123456789'' ! (n mod 10)])"

declare dec.simps [simp del]

text \<open>\<^verbatim>\<open>String.prototype.trim\<close> on ASCII text: tab, LF, VT, FF, CR and space are removed at both ends.\<close>

definition js_ws :: "char \<Rightarrow> bool" where
  "js_ws c = (c \<in> set [CHR 0x09, CHR 0x0A, CHR 0x0B, CHR 0x0C, CHR 0x0D, CHR 0x20])"

definition trim :: "string \<Rightarrow> string" where
  "trim s = rev (dropWhile js_ws (rev (dropWhile js_ws s)))"

section \<open>The request client (class APIClient)\<close>

text \<open>
  A request as \<^verbatim>\<open>_request\<close> hands it to \<^verbatim>\<open>fetch\<close>: the endpoint path (after the base URL
  of the client), the \<^verbatim>\<open>URLSearchParams\<close> entries (names and string values) before their
  serialisation into the URL, the method and the JSON body.
\<close>

record http_request =
  endpoint :: string
  query :: "(string \<times> string) list"
  http_method :: string
  body :: "jsval option"

text \<open>
  What the network answers: the \<^verbatim>\<open>fetch\<close> promise rejects (no response), the timeout
  aborts it, or a response arrives. \<open>json_body\<close> is \<open>None\<close> when \<^verbatim>\<open>response.json()\<close>
  rejects.
\<close>

record http_response =
  ok :: bool
  status :: nat
  statusText :: string
  json_body :: "jsval option"

datatype fetch_outcome = FetchFailed string | FetchAborted string | FetchResponse http_response

text \<open>
  A JavaScript number that need not be finite: the score of a task is one, and so is
  the result of converting a string to a number.
\<close>

datatype jsnum = Num rat | NaN | PosInf | NegInf

text \<open>
  Everything the program asks of its surroundings: the network, the engine's
  conversions between numbers and strings, the user's answer to \<^verbatim>\<open>confirm\<close>, and the
  clock (\<^verbatim>\<open>Date.now()\<close>, \<^verbatim>\<open>new Date().toISOString()\<close>).
\<close>

record env =
  fetch :: "http_request \<Rightarrow> fetch_outcome"
  num_str :: "rat \<Rightarrow> string"
  str_num :: "string \<Rightarrow> jsnum"
  confirm_ok :: bool
  now_ms :: int
  now_iso :: string

text \<open>
  A client operation returns the requests it sent, in order, and its result: \<open>Inl\<close> is
  the rejected promise.
\<close>

type_synonym 'a called = "http_request list \<times> (error + 'a)"

text \<open>
  The message of the \<^verbatim>\<open>Error\<close> thrown on a non-success status:
  \<^verbatim>\<open>errorData.detail?.message || errorData.message || `HTTP ${status}: ${statusText}`\<close>.
\<close>

definition error_message :: "env \<Rightarrow> jsval \<Rightarrow> nat \<Rightarrow> string \<Rightarrow> error + string" where
  "error_message env errorData st stText =
     and_then (getp errorData ''detail'') (\<lambda>d.
     and_then (if d = JNull \<or> d = JUndefined then Inr JUndefined else getp d ''message'') (\<lambda>m1.
       if truthy m1 then js_String (num_str env) m1
       else and_then (getp errorData ''message'') (\<lambda>m2.
         if truthy m2 then js_String (num_str env) m2
         else Inr (''HTTP '' @ dec st @ '': '' @ stText))))"

text \<open>\<^verbatim>\<open>_request\<close>: one \<^verbatim>\<open>fetch\<close>; the \<^verbatim>\<open>catch\<close> logs and rethrows.\<close>

definition APIClient_request :: "env \<Rightarrow> http_request \<Rightarrow> jsval called" where
  "APIClient_request env req =
     ([req],
      (case fetch env req of
         FetchFailed msg \<Rightarrow> Inl (ConnectivityError msg)
       | FetchAborted msg \<Rightarrow> Inl (ConnectivityError msg)
       | FetchResponse r \<Rightarrow>
           (if ok r then
              (case json_body r of
                 None \<Rightarrow> Inl (SyntaxError ''Unexpected end of JSON input'')
               | Some data \<Rightarrow> Inr data)
            else
              and_then
                (error_message env (case json_body r of None \<Rightarrow> JObj [] | Some d \<Rightarrow> d)
                   (status r) (statusText r))
                (\<lambda>m. Inl (BackendError m)))))"

text \<open>
  \<^verbatim>\<open>v.trim()\<close> on an argument that passed the \<^verbatim>\<open>!v\<close> test: only a string has the
  method.
\<close>

fun js_trim :: "jsval \<Rightarrow> error + string" where
  "js_trim (JStr s) = Inr (trim s)"
| "js_trim JUndefined = Inl (TypeError ''Cannot read properties of undefined (reading trim)'')"
| "js_trim JNull = Inl (TypeError ''Cannot read properties of null (reading trim)'')"
| "js_trim v = Inl (TypeError ''trim is not a function'')"

definition generateContent :: "env \<Rightarrow> jsval \<Rightarrow> jsval called" where
  "generateContent env subject =
     (if falsy subject then ([], Inl (ValidationError ''Subject cannot be empty''))
      else (case js_trim subject of
              Inl e \<Rightarrow> ([], Inl e)
            | Inr s \<Rightarrow>
                if length s = 0 then ([], Inl (ValidationError ''Subject cannot be empty''))
                else APIClient_request env
                       \<lparr>endpoint = ''/generate'', query = [], http_method = ''POST'',
                        body = Some (JObj [(''subject'', JStr s)])\<rparr>))"

text \<open>
  Comparison of a number with a constant, and its string as \<^verbatim>\<open>URLSearchParams\<close> stores
  it. Every comparison with \<^verbatim>\<open>NaN\<close> is false.
\<close>

definition num_less :: "jsnum \<Rightarrow> rat \<Rightarrow> bool" where
  "num_less x r = (case x of Num a \<Rightarrow> a < r | NaN \<Rightarrow> False | PosInf \<Rightarrow> False | NegInf \<Rightarrow> True)"

definition num_greater :: "jsnum \<Rightarrow> rat \<Rightarrow> bool" where
  "num_greater x r = (case x of Num a \<Rightarrow> r < a | NaN \<Rightarrow> False | PosInf \<Rightarrow> True | NegInf \<Rightarrow> False)"

definition jsnum_str :: "env \<Rightarrow> jsnum \<Rightarrow> string" where
  "jsnum_str env x =
     (case x of Num a \<Rightarrow> num_str env a | NaN \<Rightarrow> ''NaN'' | PosInf \<Rightarrow> ''Infinity''
      | NegInf \<Rightarrow> ''-Infinity'')"

text \<open>\<open>generateQuestions\<close>; the only caller passes the count 5.\<close>

definition generateQuestions :: "env \<Rightarrow> jsval \<Rightarrow> jsval \<Rightarrow> jsnum \<Rightarrow> jsval called" where
  "generateQuestions env subject topic count =
     (if falsy subject \<or> falsy topic
      then ([], Inl (ValidationError ''Subject and topic are required''))
      else if num_less count 1 \<or> num_greater count 20
      then ([], Inl (ValidationError ''Count must be between 1 and 20''))
      else
        (case js_trim subject of
           Inl e \<Rightarrow> ([], Inl e)
         | Inr s \<Rightarrow>
             (case js_trim topic of
                Inl e \<Rightarrow> ([], Inl e)
              | Inr t \<Rightarrow>
                  (case APIClient_request env
                          \<lparr>endpoint = ''/generate-questions'',
                           query = [(''subject'', s), (''topic'', t),
                                    (''count'', jsnum_str env count)],
                           http_method = ''POST'', body = None\<rparr> of
                     (sent, res) \<Rightarrow>
                       (sent, and_then res (\<lambda>response.
                                and_then (getp response ''data'') (\<lambda>d.
                                  Inr (if truthy d then d else response))))))))"

definition verifyAnswer :: "env \<Rightarrow> jsval \<Rightarrow> jsval \<Rightarrow> jsval called" where
  "verifyAnswer env question answer =
     (if falsy question then ([], Inl (ValidationError ''Question cannot be empty''))
      else (case js_trim question of
              Inl e \<Rightarrow> ([], Inl e)
            | Inr q \<Rightarrow>
                if length q = 0 then ([], Inl (ValidationError ''Question cannot be empty''))
                else if falsy answer then ([], Inl (ValidationError ''Answer cannot be empty''))
                else (case js_trim answer of
                        Inl e \<Rightarrow> ([], Inl e)
                      | Inr a \<Rightarrow>
                          if length a = 0 then ([], Inl (ValidationError ''Answer cannot be empty''))
                          else APIClient_request env
                                 \<lparr>endpoint = ''/verify-answer'',
                                  query = [(''question'', q), (''answer'', a)],
                                  http_method = ''POST'', body = None\<rparr>)))"

section \<open>The state of the page (script.js)\<close>

text \<open>
  A topic and a subject as \<open>generateSubject\<close> builds them. The name and the questions of
  a topic are whatever the backend sent.
\<close>

record topic =
  topic_id :: string
  topic_name :: jsval
  topic_questions :: jsval

record subject =
  subj_id :: int
  subj_name :: string
  subj_topics :: "topic list"
  isAI :: bool
  createdAt :: string

text \<open>The record stored under \<^verbatim>\<open>currentTaskData\<close> by \<open>viewTopicQuestions\<close>.\<close>

record task_data =
  subjectId :: int
  topicId :: string
  td_subject :: string
  td_topic :: jsval
  td_questions :: jsval
  needsGeneration :: bool
  apiGenerated :: bool

text \<open>An entry of the list stored under \<^verbatim>\<open>taskHistory\<close>.\<close>

record history_entry =
  h_subject :: string
  h_topic :: jsval
  h_totalQuestions :: nat
  h_correctAnswers :: nat
  h_score :: jsnum
  h_date :: string
  h_timestamp :: int

text \<open>
  A card of \<^verbatim>\<open>#subjectsContainer\<close>: the subject's name, the number of its topics and the
  names printed on the buttons of its first three topics.
\<close>

record subject_card =
  card_name :: string
  card_topic_count :: nat
  card_topics :: "string list"

text \<open>
  The markup of \<^verbatim>\<open>#questionsContainer\<close>, one constructor per template of the source:
  the spinner shown while generating, the failure banner with the error's message, the
  text "No questions available. Please go back and try again." with its button back to
  the subjects, the empty state "No Questions Available" of \<open>renderTaskQuestions\<close>, and
  the list of question cards (the texts printed on them) with the button that submits
  all answers. Assigning \<^verbatim>\<open>innerHTML\<close> replaces the list; \<^verbatim>\<open>+=\<close> appends to it.
\<close>

datatype block =
    GeneratingBlock string
  | ErrorBanner string
  | BackToSubjects
  | NoQuestionsBlock
  | QuestionsBlock "string list"

text \<open>
  What \<^verbatim>\<open>showError\<close>, \<^verbatim>\<open>showSuccess\<close> and \<^verbatim>\<open>alert\<close> tell the user, and what the result
  box of a question shows after a check (the index, the verdict and the feedback, or
  the index and the error's message).
\<close>

datatype notice =
    Warning string
  | Info string
  | QuotaExceeded
  | ConnectionError
  | ApiKeyError
  | AIConnectionFailed string
  | Success string
  | Alert string
  | AnswerChecked nat bool string
  | AnswerNotVerified nat string

text \<open>
  The mutable state: \<^verbatim>\<open>AppState.subjects\<close>; the three keys of local storage (\<open>None\<close>: the
  key is absent; a stored value is the JSON of the value shown); the three globals of
  \<^verbatim>\<open>window\<close> set by \<open>renderTaskQuestions\<close> (\<open>None\<close>: \<^verbatim>\<open>undefined\<close>; in the answers and scores,
  \<open>None\<close> is \<^verbatim>\<open>null\<close>); the questions container and the subjects container; the subject
  input; the notices shown so far; the page navigated to. The elements the source
  looks up by id exist, and local storage has room: \<^verbatim>\<open>setItem\<close> does not throw. The loading
  indicator is not part of the state.
\<close>

record app =
  subjects :: "subject list"
  stored_subjects :: "subject list option"
  currentTaskData :: "task_data option"
  taskHistory :: "history_entry list option"
  currentTaskQuestions :: "jsval list option"
  taskAnswers :: "string option list option"
  taskScores :: "nat option list option"
  questionsContainer :: "block list"
  subjectsContainer :: "subject_card list"
  subjectInput :: string
  notices :: "notice list"
  location :: "string option"

text \<open>
  A function of the page returns the state it leaves and the exception that escaped
  it, if any: an exception does not undo the assignments made before it.
\<close>

type_synonym outcome = "app \<times> error option"

definition saveState :: "app \<Rightarrow> app" where
  "saveState st = st\<lparr>stored_subjects := Some (subjects st)\<rparr>"

section \<open>Engine functions the page uses\<close>

fun message :: "error \<Rightarrow> string" where
  "message (ValidationError m) = m"
| "message (ConnectivityError m) = m"
| "message (BackendError m) = m"
| "message (UnexpectedShapeError m) = m"
| "message (TypeError m) = m"
| "message (SyntaxError m) = m"

text \<open>\<^verbatim>\<open>s.includes(t)\<close>: \<open>t\<close> occurs in \<open>s\<close>.\<close>

fun js_includes :: "string \<Rightarrow> string \<Rightarrow> bool" where
  "js_includes [] t = (t = [])"
| "js_includes (c # s) t = (take (length t) (c # s) = t \<or> js_includes s t)"

text \<open>\<^verbatim>\<open>toLowerCase\<close> on ASCII text.\<close>

definition lower_char :: "char \<Rightarrow> char" where
  "lower_char c =
     (case map_of (zip ''ABCDEFGHIJKLMNOPQRSTUVWXYZ'' ''abcdefghijklmnopqrstuvwxyz'') c of
        None \<Rightarrow> c
      | Some l \<Rightarrow> l)"

definition toLowerCase :: "string \<Rightarrow> string" where
  "toLowerCase s = map lower_char s"

fun typeof :: "jsval \<Rightarrow> string" where
  "typeof JUndefined = ''undefined''"
| "typeof JNull = ''object''"
| "typeof (JBool b) = ''boolean''"
| "typeof (JNum r) = ''number''"
| "typeof (JStr s) = ''string''"
| "typeof (JArr xs) = ''object''"
| "typeof (JObj kvs) = ''object''"

text \<open>\<^verbatim>\<open>v.length\<close> of a value that is neither \<^verbatim>\<open>null\<close> nor \<^verbatim>\<open>undefined\<close>.\<close>

fun js_length :: "jsval \<Rightarrow> jsval" where
  "js_length (JArr xs) = JNum (of_nat (length xs))"
| "js_length (JStr s) = JNum (of_nat (length s))"
| "js_length (JObj kvs) = (case map_of kvs ''length'' of None \<Rightarrow> JUndefined | Some v \<Rightarrow> v)"
| "js_length v = JUndefined"

text \<open>
  \<^verbatim>\<open>v > 0\<close>: the value is converted to a number first; an array or an object through
  its string.
\<close>

definition to_number :: "env \<Rightarrow> jsval \<Rightarrow> error + jsnum" where
  "to_number env v =
     (case v of
        JUndefined \<Rightarrow> Inr NaN
      | JNull \<Rightarrow> Inr (Num 0)
      | JBool b \<Rightarrow> Inr (Num (if b then 1 else 0))
      | JNum r \<Rightarrow> Inr (Num r)
      | JStr s \<Rightarrow> Inr (str_num env s)
      | JArr xs \<Rightarrow> and_then (js_String (num_str env) v) (\<lambda>s. Inr (str_num env s))
      | JObj kvs \<Rightarrow> and_then (js_String (num_str env) v) (\<lambda>s. Inr (str_num env s)))"

definition js_gt0 :: "env \<Rightarrow> jsval \<Rightarrow> error + bool" where
  "js_gt0 env v =
     and_then (to_number env v) (\<lambda>n.
       Inr (case n of Num r \<Rightarrow> 0 < r | NaN \<Rightarrow> False | PosInf \<Rightarrow> True | NegInf \<Rightarrow> False))"

text \<open>\<^verbatim>\<open>xs.map(f)\<close> with an \<open>f\<close> that may throw: the first exception ends the loop.\<close>

fun map_res :: "('a \<Rightarrow> error + 'b) \<Rightarrow> 'a list \<Rightarrow> error + 'b list" where
  "map_res f [] = Inr []"
| "map_res f (x # xs) =
     (case f x of
        Inl e \<Rightarrow> Inl e
      | Inr y \<Rightarrow> (case map_res f xs of Inl e \<Rightarrow> Inl e | Inr ys \<Rightarrow> Inr (y # ys)))"

text \<open>\<^verbatim>\<open>xs.find(p)\<close> followed by an assignment to a field of the element found.\<close>

fun update_first :: "('a \<Rightarrow> bool) \<Rightarrow> ('a \<Rightarrow> 'a) \<Rightarrow> 'a list \<Rightarrow> 'a list" where
  "update_first p f [] = []"
| "update_first p f (x # xs) = (if p x then f x # xs else x # update_first p f xs)"

subsection \<open>Double precision arithmetic\<close>

text \<open>
  The score is computed in IEEE 754 double precision. \<open>fl x\<close> is the double nearest to
  \<open>x\<close>, ties to the even significand of 53 bits. Overflow and subnormal numbers do not
  arise: the operands are lengths of arrays (below \<open>2^32\<close>, so exact) and the constant
  100.
\<close>

definition ilog2 :: "rat \<Rightarrow> int" where
  "ilog2 x =
     (let k = bitlen (fst (quotient_of x)) - bitlen (snd (quotient_of x))
      in if 2 powi k \<le> x then k else k - 1)"

definition fl :: "rat \<Rightarrow> rat" where
  "fl x =
     (if x = 0 then 0
      else
        (let e = ilog2 \<bar>x\<bar> - 52;
             m = \<bar>x\<bar> / 2 powi e;
             f = \<lfloor>m\<rfloor>;
             n = (if m - of_int f < 1 / 2 then f
                  else if 1 / 2 < m - of_int f then f + 1
                  else if even f then f else f + 1)
         in sgn x * of_int n * 2 powi e))"

text \<open>\<^verbatim>\<open>c / t\<close> for two lengths, \<^verbatim>\<open>x * 100\<close> and \<^verbatim>\<open>Math.round(x)\<close>.\<close>

definition js_div :: "nat \<Rightarrow> nat \<Rightarrow> jsnum" where
  "js_div c t =
     (if t = 0 then (if c = 0 then NaN else PosInf) else Num (fl (of_nat c / of_nat t)))"

definition js_times100 :: "jsnum \<Rightarrow> jsnum" where
  "js_times100 x = (case x of Num r \<Rightarrow> Num (fl (r * 100)) | NaN \<Rightarrow> NaN | PosInf \<Rightarrow> PosInf | NegInf \<Rightarrow> NegInf)"

definition Math_round :: "jsnum \<Rightarrow> jsnum" where
  "Math_round x = (case x of Num r \<Rightarrow> Num (of_int \<lfloor>r + 1 / 2\<rfloor>) | NaN \<Rightarrow> NaN | PosInf \<Rightarrow> PosInf | NegInf \<Rightarrow> NegInf)"

section \<open>Subjects\<close>

text \<open>
  The \<^verbatim>\<open>catch\<close> of \<open>generateSubject\<close> chooses its notice from the error's message.
\<close>

definition classify :: "error \<Rightarrow> notice" where
  "classify e =
     (if js_includes (message e) ''429'' \<or> js_includes (message e) ''quota''
         \<or> js_includes (message e) ''exceeded'' then QuotaExceeded
      else if js_includes (message e) ''fetch'' \<or> js_includes (message e) ''connection''
         \<or> js_includes (message e) ''NetworkError'' then ConnectionError
      else if js_includes (message e) ''API key'' \<or> js_includes (message e) ''401''
         \<or> js_includes (message e) ''403'' then ApiKeyError
      else AIConnectionFailed (message e))"

text \<open>
  \<^verbatim>\<open>response.topics.map((topic, idx) => ({id: `topic-${idx}`, name: topic.topic,
  questions: topic.questions || []}))\<close>, from index \<open>idx\<close> on.
\<close>

fun build_topics :: "nat \<Rightarrow> jsval list \<Rightarrow> error + topic list" where
  "build_topics idx [] = Inr []"
| "build_topics idx (t # ts) =
     and_then (getp t ''topic'') (\<lambda>nm.
     and_then (getp t ''questions'') (\<lambda>qs.
     and_then (build_topics (Suc idx) ts) (\<lambda>rest.
       Inr (\<lparr>topic_id = ''topic-'' @ dec idx, topic_name = nm,
             topic_questions = (if truthy qs then qs else JArr [])\<rparr> # rest))))"

definition new_subject :: "env \<Rightarrow> string \<Rightarrow> jsval \<Rightarrow> error + subject" where
  "new_subject env subjectName response =
     and_then (getp response ''topics'') (\<lambda>ts.
       case ts of
         JArr xs \<Rightarrow>
           and_then (build_topics 0 xs) (\<lambda>tps.
             Inr \<lparr>subj_id = now_ms env, subj_name = subjectName, subj_topics = tps,
                  isAI = True, createdAt = now_iso env\<rparr>)
       | JUndefined \<Rightarrow> Inl (TypeError ''Cannot read properties of undefined (reading map)'')
       | JNull \<Rightarrow> Inl (TypeError ''Cannot read properties of null (reading map)'')
       | _ \<Rightarrow> Inl (TypeError ''response.topics.map is not a function''))"

text \<open>The text of the success notice: both totals are printed by a template literal.\<close>

definition success_text :: "env \<Rightarrow> jsval \<Rightarrow> error + string" where
  "success_text env response =
     and_then (getp response ''total_topics'') (\<lambda>tt.
     and_then (js_String (num_str env) tt) (\<lambda>a.
     and_then (getp response ''total_questions'') (\<lambda>tq.
     and_then (js_String (num_str env) tq) (\<lambda>b.
       Inr (''Generated '' @ a @ '' topics with '' @ b @ '' questions!'')))))"

text \<open>
  \<open>renderSubjects\<close> rebuilds the cards from \<^verbatim>\<open>AppState.subjects\<close>. Printing the name of a
  topic is the one step of the template that can throw.
\<close>

definition card_of :: "env \<Rightarrow> subject \<Rightarrow> error + subject_card" where
  "card_of env s =
     and_then (map_res (\<lambda>t. js_String (num_str env) (topic_name t)) (take 3 (subj_topics s)))
       (\<lambda>names. Inr \<lparr>card_name = subj_name s, card_topic_count = length (subj_topics s),
                      card_topics = names\<rparr>)"

definition renderSubjects :: "env \<Rightarrow> app \<Rightarrow> outcome" where
  "renderSubjects env st =
     (if length (subjects st) = 0 then (st\<lparr>subjectsContainer := []\<rparr>, None)
      else (case map_res (card_of env) (subjects st) of
              Inl e \<Rightarrow> (st, Some e)
            | Inr cards \<Rightarrow> (st\<lparr>subjectsContainer := cards\<rparr>, None)))"

text \<open>
  \<open>generateSubject\<close> is an \<^verbatim>\<open>async\<close> function, and it does not run in one piece. A call
  runs l.31-54 at once: the two early returns, then \<^verbatim>\<open>apiClient.generateContent(subjectName)\<close>,
  which sends the request, and the \<^verbatim>\<open>await\<close>, where the call is suspended with
  \<^verbatim>\<open>subjectName\<close> in its closure. The rest of the body (l.56-132) runs once the promise
  has settled, on the state the page has by then: in between the page handles other
  events, further calls of \<open>generateSubject\<close> among them. The source neither disables the
  input nor records that a call is pending, and it clears the input only at l.74.
\<close>

datatype progress =
    Returned
  | Awaiting string "error + jsval"

text \<open>
  The call up to the \<^verbatim>\<open>await\<close>. \<open>Awaiting subjectName r\<close>: the call is suspended, and \<open>r\<close> is
  what the promise of \<^verbatim>\<open>generateContent\<close> settles with (the value it resolves to, or the
  error it rejects with). Showing the loading indicator does not change the state.
\<close>

definition generateSubject_call :: "env \<Rightarrow> app \<Rightarrow> app \<times> progress" where
  "generateSubject_call env st =
     (let subjectName = trim (subjectInput st) in
      if subjectName = []
      then (st\<lparr>notices := notices st @ [Warning ''Please enter a subject name'']\<rparr>, Returned)
      else
        (case List.find (\<lambda>s. toLowerCase (subj_name s) = toLowerCase subjectName) (subjects st) of
           Some existingSubject \<Rightarrow>
             (st\<lparr>notices := notices st @ [Info ''This subject already exists!'']\<rparr>, Returned)
         | None \<Rightarrow> (st, Awaiting subjectName (snd (generateContent env (JStr subjectName))))))"

text \<open>
  The call from the \<^verbatim>\<open>await\<close> on, with the \<^verbatim>\<open>subjectName\<close> of its closure and the outcome
  \<open>awaited\<close> of the promise; \<open>st\<close> is the state of the page at that moment. Everything
  runs inside \<^verbatim>\<open>try\<close>, so no exception escapes. The subject is added to the front of
  \<^verbatim>\<open>AppState.subjects\<close> as it is then, and saved, once the response has been turned into
  topics; an exception after that (while the cards or the success notice are printed)
  leaves it added.
\<close>

definition generateSubject_resume :: "env \<Rightarrow> string \<Rightarrow> error + jsval \<Rightarrow> app \<Rightarrow> app" where
  "generateSubject_resume env subjectName awaited st =
     (case awaited of
        Inl e \<Rightarrow> st\<lparr>notices := notices st @ [classify e]\<rparr>
      | Inr response \<Rightarrow>
          (case new_subject env subjectName response of
             Inl e \<Rightarrow> st\<lparr>notices := notices st @ [classify e]\<rparr>
           | Inr newSubject \<Rightarrow>
               (let st1 = saveState (st\<lparr>subjects := newSubject # subjects st\<rparr>);
                    st2 = st1\<lparr>subjectInput := []\<rparr>
                in case renderSubjects env st2 of
                     (st3, Some e) \<Rightarrow> st3\<lparr>notices := notices st3 @ [classify e]\<rparr>
                   | (st3, None) \<Rightarrow>
                       (case success_text env response of
                          Inl e \<Rightarrow> st3\<lparr>notices := notices st3 @ [classify e]\<rparr>
                        | Inr msg \<Rightarrow> st3\<lparr>notices := notices st3 @ [Success msg]\<rparr>))))"

text \<open>
  One call of \<open>generateSubject\<close> during which the page handles no other event: the
  continuation runs on the state the call left.
\<close>

definition generateSubject :: "env \<Rightarrow> app \<Rightarrow> app" where
  "generateSubject env st =
     (case generateSubject_call env st of
        (st', Returned) \<Rightarrow> st'
      | (st', Awaiting subjectName awaited) \<Rightarrow> generateSubject_resume env subjectName awaited st')"

text \<open>
  \<open>deleteSubject\<close>: nothing happens unless the user confirms; then the subjects are
  filtered and saved before the cards are rebuilt.
\<close>

definition deleteSubject :: "env \<Rightarrow> int \<Rightarrow> app \<Rightarrow> outcome" where
  "deleteSubject env sid st =
     (if confirm_ok env
      then renderSubjects env
             (saveState (st\<lparr>subjects := filter (\<lambda>s. subj_id s \<noteq> sid) (subjects st)\<rparr>))
      else (st, None))"

text \<open>
  The events of the subjects page that read or write the subjects or the input: the
  user puts a text into the input; the user presses Enter there (\<^verbatim>\<open>handleEnterKey\<close> calls
  \<open>generateSubject\<close>); the user clicks the delete button of a subject; the promise of a
  suspended call settles and its continuation runs. The page is the state together
  with the suspended calls of \<open>generateSubject\<close>, the oldest first, each with the
  \<^verbatim>\<open>subjectName\<close> of its closure and the outcome of its promise. \<open>Arrives i\<close> resumes the
  suspended call at position \<open>i\<close>: responses may arrive in any order. An exception that
  escapes \<open>deleteSubject\<close> ends the handler and leaves the state as it is.
\<close>

datatype event =
    Typed string
  | Enter
  | Delete int
  | Arrives nat

type_synonym page = "app \<times> (string \<times> (error + jsval)) list"

fun dispatch :: "env \<Rightarrow> event \<Rightarrow> page \<Rightarrow> page" where
  "dispatch env (Typed s) (st, calls) = (st\<lparr>subjectInput := s\<rparr>, calls)"
| "dispatch env Enter (st, calls) =
     (case generateSubject_call env st of
        (st', Returned) \<Rightarrow> (st', calls)
      | (st', Awaiting subjectName awaited) \<Rightarrow> (st', calls @ [(subjectName, awaited)]))"
| "dispatch env (Delete sid) (st, calls) = (fst (deleteSubject env sid st), calls)"
| "dispatch env (Arrives i) (st, calls) =
     (if i < length calls
      then (generateSubject_resume env (fst (calls ! i)) (snd (calls ! i)) st,
            take i calls @ drop (Suc i) calls)
      else (st, calls))"

text \<open>
  The events are handled one after the other, each in the environment of its moment
  (the clock, the network).
\<close>

fun run :: "(env \<times> event) list \<Rightarrow> page \<Rightarrow> page" where
  "run [] pg = pg"
| "run ((env, ev) # es) pg = run es (dispatch env ev pg)"

definition viewTopicQuestions :: "int \<Rightarrow> string \<Rightarrow> app \<Rightarrow> app" where
  "viewTopicQuestions sid tid st =
     (case List.find (\<lambda>s. subj_id s = sid) (subjects st) of
        None \<Rightarrow> st
      | Some sbj \<Rightarrow>
          (case List.find (\<lambda>t. topic_id t = tid) (subj_topics sbj) of
             None \<Rightarrow> st
           | Some tp \<Rightarrow>
               st\<lparr>currentTaskData :=
                     Some \<lparr>subjectId = sid, topicId = tid, td_subject = subj_name sbj,
                           td_topic = topic_name tp, td_questions = topic_questions tp,
                           needsGeneration = True, apiGenerated = False\<rparr>,
                  location := Some ''task.html''\<rparr>))"

section \<open>Question shapes\<close>

definition question_obj :: "jsval \<Rightarrow> jsval" where
  "question_obj v = JObj [(''question'', v)]"

text \<open>
  The mapping in \<open>generateQuestionsForTopic\<close>:
  \<^verbatim>\<open>{question: typeof q === 'string' ? q : q.question || q.text || String(q)}\<close>.
\<close>

definition normalize_generated :: "env \<Rightarrow> jsval \<Rightarrow> error + jsval" where
  "normalize_generated env q =
     (if typeof q = ''string'' then Inr (question_obj q)
      else
        and_then (getp q ''question'') (\<lambda>a.
          if truthy a then Inr (question_obj a)
          else and_then (getp q ''text'') (\<lambda>b.
            if truthy b then Inr (question_obj b)
            else and_then (js_String (num_str env) q) (\<lambda>s. Inr (question_obj (JStr s))))))"

text \<open>
  The mapping in \<open>renderTaskQuestions\<close>. A string is wrapped; an object with a truthy
  \<^verbatim>\<open>question\<close> is returned as it is; another object gives
  \<^verbatim>\<open>{question: q.text || q.title || String(q)}\<close>; anything else \<^verbatim>\<open>{question: String(q)}\<close>.
  The second and third branch of the source share their test \<^verbatim>\<open>q && typeof q === 'object'\<close>.
\<close>

definition normalize_rendered :: "env \<Rightarrow> jsval \<Rightarrow> error + jsval" where
  "normalize_rendered env q =
     (if typeof q = ''string'' then Inr (question_obj q)
      else if truthy q \<and> typeof q = ''object'' then
        and_then (getp q ''question'') (\<lambda>a.
          if truthy a then Inr q
          else and_then (getp q ''text'') (\<lambda>b.
            if truthy b then Inr (question_obj b)
            else and_then (getp q ''title'') (\<lambda>c.
              if truthy c then Inr (question_obj c)
              else and_then (js_String (num_str env) q) (\<lambda>s. Inr (question_obj (JStr s))))))
      else and_then (js_String (num_str env) q) (\<lambda>s. Inr (question_obj (JStr s))))"

text \<open>The text a question card shows: \<^verbatim>\<open>${q.question}\<close>.\<close>

definition card_text :: "env \<Rightarrow> jsval \<Rightarrow> error + string" where
  "card_text env q = and_then (getp q ''question'') (js_String (num_str env))"

section \<open>The task page\<close>

text \<open>
  \<open>renderTaskQuestions\<close>. The three globals are assigned before the markup is built, and
  the markup replaces whatever the container held.
\<close>

definition renderTaskQuestions :: "env \<Rightarrow> jsval \<Rightarrow> app \<Rightarrow> outcome" where
  "renderTaskQuestions env questions st =
     (if falsy questions \<or> js_length questions = JNum 0
      then (st\<lparr>questionsContainer := [NoQuestionsBlock]\<rparr>, None)
      else
        (case questions of
           JArr qs \<Rightarrow>
             (case map_res (normalize_rendered env) qs of
                Inl e \<Rightarrow> (st, Some e)
              | Inr normalizedQuestions \<Rightarrow>
                  (let st1 = st\<lparr>currentTaskQuestions := Some normalizedQuestions,
                                 taskAnswers := Some (replicate (length normalizedQuestions) None),
                                 taskScores := Some (replicate (length normalizedQuestions) None)\<rparr>
                   in case map_res (card_text env) normalizedQuestions of
                        Inl e \<Rightarrow> (st1, Some e)
                      | Inr cards \<Rightarrow> (st1\<lparr>questionsContainer := [QuestionsBlock cards]\<rparr>, None)))
         | _ \<Rightarrow> (st, Some (TypeError ''questions.map is not a function''))))"

text \<open>
  The questions of the response: \<^verbatim>\<open>response.questions\<close> if that is an array, the
  response itself if it is one, otherwise the format is invalid.
\<close>

definition extract_questions :: "env \<Rightarrow> jsval \<Rightarrow> error + jsval list" where
  "extract_questions env response =
     (case (if truthy response then getp response ''questions'' else Inr JUndefined) of
        Inr (JArr qs) \<Rightarrow> map_res (normalize_generated env) qs
      | _ \<Rightarrow>
          (case response of
             JArr rs \<Rightarrow> map_res (normalize_generated env) rs
           | _ \<Rightarrow> Inl (UnexpectedShapeError ''Invalid response format from API'')))"

text \<open>
  The questions go into the first subject with the task's subject id, into its first
  topic with the task's topic id; the subjects are saved only if both exist.
\<close>

definition store_topic_questions :: "task_data \<Rightarrow> jsval list \<Rightarrow> app \<Rightarrow> app" where
  "store_topic_questions taskData questions st =
     (case List.find (\<lambda>s. subj_id s = subjectId taskData) (subjects st) of
        None \<Rightarrow> st
      | Some sbj \<Rightarrow>
          (case List.find (\<lambda>t. topic_id t = topicId taskData) (subj_topics sbj) of
             None \<Rightarrow> st
           | Some tp \<Rightarrow>
               saveState
                 (st\<lparr>subjects :=
                       update_first (\<lambda>s. subj_id s = subjectId taskData)
                         (\<lambda>s. s\<lparr>subj_topics :=
                                   update_first (\<lambda>t. topic_id t = topicId taskData)
                                     (\<lambda>t. t\<lparr>topic_questions := JArr questions\<rparr>)
                                     (subj_topics s)\<rparr>)
                         (subjects st)\<rparr>)))"

text \<open>
  The \<^verbatim>\<open>try\<close> block of \<open>generateQuestionsForTopic\<close>: the state and the task record it
  leaves, and the exception that ended it, if any. The task record is changed only
  after the questions have been extracted.
\<close>

definition try_generate :: "env \<Rightarrow> task_data \<Rightarrow> app \<Rightarrow> (app \<times> task_data) \<times> error option" where
  "try_generate env taskData st =
     (case js_String (num_str env) (td_topic taskData) of
        Inl e \<Rightarrow> ((st, taskData), Some e)
      | Inr topicText \<Rightarrow>
          (let st1 = st\<lparr>questionsContainer := [GeneratingBlock topicText]\<rparr> in
           case snd (generateQuestions env (JStr (td_subject taskData)) (td_topic taskData) (Num 5)) of
             Inl e \<Rightarrow> ((st1, taskData), Some e)
           | Inr response \<Rightarrow>
               (case extract_questions env response of
                  Inl e \<Rightarrow> ((st1, taskData), Some e)
                | Inr questions \<Rightarrow>
                    (let taskData' = taskData\<lparr>td_questions := JArr questions,
                                              apiGenerated := True, needsGeneration := False\<rparr>;
                         st2 = st1\<lparr>currentTaskData := Some taskData'\<rparr>;
                         st3 = store_topic_questions taskData' questions st2
                     in case renderTaskQuestions env (JArr questions) st3 of
                          (st4, Some e) \<Rightarrow> ((st4, taskData'), Some e)
                        | (st4, None) \<Rightarrow>
                            ((st4\<lparr>notices := notices st4 @
                                   [Success (''Generated '' @ dec (length questions)
                                             @ '' AI-powered questions for '' @ topicText @ ''!'')]\<rparr>,
                              taskData'), None)))))"

text \<open>\<^verbatim>\<open>taskData.questions && taskData.questions.length > 0\<close>.\<close>

definition has_questions :: "env \<Rightarrow> jsval \<Rightarrow> error + bool" where
  "has_questions env qs = (if falsy qs then Inr False else js_gt0 env (js_length qs))"

text \<open>
  \<open>generateQuestionsForTopic\<close>: the \<^verbatim>\<open>try\<close> block, and on an exception the \<^verbatim>\<open>catch\<close>:
  the container is set to the failure banner; then the task's questions, if there are
  any, are rendered by \<open>renderTaskQuestions\<close>; otherwise the hint to go back is appended.
\<close>

definition generateQuestionsForTopic :: "env \<Rightarrow> task_data \<Rightarrow> app \<Rightarrow> outcome" where
  "generateQuestionsForTopic env taskData st =
     (case try_generate env taskData st of
        ((st', taskData'), None) \<Rightarrow> (st', None)
      | ((st', taskData'), Some err) \<Rightarrow>
          (let st1 = st'\<lparr>questionsContainer := [ErrorBanner (message err)]\<rparr> in
           case has_questions env (td_questions taskData') of
             Inl e \<Rightarrow> (st1, Some e)
           | Inr True \<Rightarrow> renderTaskQuestions env (td_questions taskData') st1
           | Inr False \<Rightarrow>
               (st1\<lparr>questionsContainer := questionsContainer st1 @ [BackToSubjects]\<rparr>, None)))"

definition loadTaskPage :: "env \<Rightarrow> app \<Rightarrow> outcome" where
  "loadTaskPage env st =
     (case currentTaskData st of
        None \<Rightarrow> (st, None)
      | Some taskData \<Rightarrow>
          if needsGeneration taskData then generateQuestionsForTopic env taskData st
          else renderTaskQuestions env (td_questions taskData) st)"

text \<open>
  The question text \<open>submitTaskAnswer\<close> sends for checking: the third place where the
  shape of a question is inspected, with \<^verbatim>\<open>question\<close>, \<^verbatim>\<open>text\<close> and \<^verbatim>\<open>title\<close> tried in
  that order and the printed object cut to 500 characters.
\<close>

definition extract_text :: "env \<Rightarrow> jsval \<Rightarrow> error + jsval" where
  "extract_text env q =
     (if typeof q = ''string'' then Inr q
      else if truthy q \<and> typeof q = ''object'' then
        and_then (getp q ''question'') (\<lambda>a.
          if truthy a then Inr a
          else and_then (getp q ''text'') (\<lambda>b.
            if truthy b then Inr b
            else and_then (getp q ''title'') (\<lambda>c.
              if truthy c then Inr c
              else and_then (js_String (num_str env) q) (\<lambda>s. Inr (JStr (take 500 s))))))
      else if truthy q then and_then (js_String (num_str env) q) (\<lambda>s. Inr (JStr s))
      else Inr (JStr []))"

definition question_text :: "env \<Rightarrow> jsval \<Rightarrow> error + string" where
  "question_text env q =
     and_then (extract_text env q) (\<lambda>t.
     and_then (js_String (num_str env) t) (\<lambda>s. Inr (trim s)))"

text \<open>\<^verbatim>\<open>xs[i] = v\<close> on an array of nullable entries: a write past the end extends the array.\<close>

definition js_set :: "'a option list \<Rightarrow> nat \<Rightarrow> 'a \<Rightarrow> 'a option list" where
  "js_set xs i v =
     (if i < length xs then xs[i := Some v] else xs @ replicate (i - length xs) None @ [Some v])"

text \<open>
  The verdict read from the response of \<^verbatim>\<open>/verify-answer\<close>: under \<^verbatim>\<open>data\<close> or at the top
  level; correct only if \<^verbatim>\<open>is_correct === true\<close>.
\<close>

definition verdict :: "jsval \<Rightarrow> error + (bool \<times> jsval)" where
  "verdict response =
     (if falsy response then Inr (False, JStr ''Answer checked by AI'')
      else
        and_then (getp response ''data'') (\<lambda>d.
          if truthy d then
            and_then (getp d ''is_correct'') (\<lambda>c.
            and_then (getp d ''feedback'') (\<lambda>f.
              Inr (c = JBool True, if truthy f then f else JStr ''Answer checked by AI'')))
          else
            and_then (getp response ''is_correct'') (\<lambda>c.
              if c \<noteq> JUndefined then
                and_then (getp response ''feedback'') (\<lambda>f.
                  Inr (c = JBool True, if truthy f then f else JStr ''Answer checked by AI''))
              else Inr (False, JStr ''Answer checked by AI''))))"

text \<open>
  \<open>submitTaskAnswer\<close> for the question at \<open>questionIndex\<close> and the text typed into its
  answer box. The answer and the score (1 or 0) are recorded only when the check
  returned; every exception from the call on is caught and shown in the result box.
\<close>

definition submitTaskAnswer :: "env \<Rightarrow> nat \<Rightarrow> string \<Rightarrow> app \<Rightarrow> outcome" where
  "submitTaskAnswer env questionIndex answerValue st =
     (let answerText = trim answerValue in
      if answerText = [] then (st\<lparr>notices := notices st @ [Alert ''Please enter an answer first!'']\<rparr>, None)
      else
        (case currentTaskQuestions st of
           None \<Rightarrow> (st, Some (TypeError ''Cannot read properties of undefined (reading index)''))
         | Some questions \<Rightarrow>
             (case question_text env
                     (if questionIndex < length questions then questions ! questionIndex else JUndefined) of
                Inl e \<Rightarrow> (st, Some e)
              | Inr questionText \<Rightarrow>
                  if length questionText = 0
                  then (st\<lparr>notices := notices st @ [Alert ''Error: Question not found!'']\<rparr>, None)
                  else
                    (case snd (verifyAnswer env (JStr questionText) (JStr answerText)) of
                       Inl e \<Rightarrow> (st\<lparr>notices := notices st @ [AnswerNotVerified questionIndex (message e)]\<rparr>, None)
                     | Inr response \<Rightarrow>
                         (case taskAnswers st of
                            None \<Rightarrow>
                              (st\<lparr>notices := notices st @
                                    [AnswerNotVerified questionIndex ''Cannot set properties of undefined'']\<rparr>, None)
                          | Some answers \<Rightarrow>
                              (let st1 = st\<lparr>taskAnswers := Some (js_set answers questionIndex answerText)\<rparr> in
                               case verdict response of
                                 Inl e \<Rightarrow>
                                   (st1\<lparr>notices := notices st1 @ [AnswerNotVerified questionIndex (message e)]\<rparr>, None)
                               | Inr (isCorrect, feedback) \<Rightarrow>
                                   (case taskScores st1 of
                                      None \<Rightarrow>
                                        (st1\<lparr>notices := notices st1 @
                                               [AnswerNotVerified questionIndex ''Cannot set properties of undefined'']\<rparr>, None)
                                    | Some scores \<Rightarrow>
                                        (let st2 = st1\<lparr>taskScores :=
                                                         Some (js_set scores questionIndex (if isCorrect then 1 else 0))\<rparr>
                                         in case js_String (num_str env) feedback of
                                              Inl e \<Rightarrow>
                                                (st2\<lparr>notices := notices st2 @
                                                       [AnswerNotVerified questionIndex (message e)]\<rparr>, None)
                                            | Inr fb \<Rightarrow>
                                                (st2\<lparr>notices := notices st2 @
                                                       [AnswerChecked questionIndex isCorrect fb]\<rparr>, None)))))))))"

text \<open>
  \<open>submitAllTaskAnswers\<close>. Without a task record it only alerts. With fewer answers
  than questions it asks the user and returns if the user declines. Then it counts the
  scores equal to 1, computes the score in double precision, appends one entry to the
  stored history and navigates to the progress page.
\<close>

definition final_score :: "nat \<Rightarrow> nat \<Rightarrow> jsnum" where
  "final_score correctAnswers totalQuestions =
     Math_round (js_times100 (js_div correctAnswers totalQuestions))"

definition submitAllTaskAnswers :: "env \<Rightarrow> app \<Rightarrow> outcome" where
  "submitAllTaskAnswers env st =
     (case currentTaskData st of
        None \<Rightarrow> (st\<lparr>notices := notices st @ [Alert ''No task data found!'']\<rparr>, None)
      | Some taskData \<Rightarrow>
          (case currentTaskQuestions st of
             None \<Rightarrow> (st, Some (TypeError ''Cannot read properties of undefined (reading length)''))
           | Some questions \<Rightarrow>
               (case taskAnswers st of
                  None \<Rightarrow> (st, Some (TypeError ''Cannot read properties of undefined (reading filter)''))
                | Some answers \<Rightarrow>
                    (let totalQuestions = length questions;
                         answeredQuestions = length (filter (\<lambda>a. a \<noteq> None) answers)
                     in if answeredQuestions < totalQuestions \<and> \<not> confirm_ok env then (st, None)
                        else
                          (case taskScores st of
                             None \<Rightarrow> (st, Some (TypeError ''Cannot read properties of undefined (reading filter)''))
                           | Some scores \<Rightarrow>
                               (let correctAnswers = length (filter (\<lambda>s. s = Some 1) scores);
                                    entry = \<lparr>h_subject = td_subject taskData,
                                             h_topic = td_topic taskData,
                                             h_totalQuestions = totalQuestions,
                                             h_correctAnswers = correctAnswers,
                                             h_score = final_score correctAnswers totalQuestions,
                                             h_date = now_iso env,
                                             h_timestamp = now_ms env\<rparr>
                                in (st\<lparr>taskHistory :=
                                          Some ((case taskHistory st of None \<Rightarrow> [] | Some h \<Rightarrow> h) @ [entry]),
                                        notices := notices st @ [Alert ''Task Complete!''],
                                        location := Some ''progress.html''\<rparr>, None)))))))"

section \<open>Environments and states used in the examples\<close>

text \<open>
  A browser that is offline: every \<^verbatim>\<open>fetch\<close> rejects. Numbers print as the decimal
  digits of their integer part (what the engine prints for a natural number), and no
  string converts to a number. The user confirms every dialog.
\<close>

definition offline_env :: env where
  "offline_env =
     \<lparr>fetch = (\<lambda>req. FetchFailed ''Failed to fetch''), num_str = (\<lambda>r. dec (nat \<lfloor>r\<rfloor>)),
      str_num = (\<lambda>s. NaN), confirm_ok = True, now_ms = 1700000000000,
      now_iso = ''2023-11-14T22:13:20.000Z''\<rparr>"

text \<open>The same browser with a user who declines every dialog.\<close>

definition declining_env :: env where
  "declining_env = offline_env\<lparr>confirm_ok := False\<rparr>"

text \<open>A backend that answers every request with one topic of two questions.\<close>

definition python_payload :: jsval where
  "python_payload =
     JObj [(''subject'', JStr ''Python''),
           (''topics'', JArr [JObj [(''topic'', JStr ''Functions''),
                                    (''questions'', JArr [JStr ''What is a function?'',
                                                          JStr ''What does return do?''])]]),
           (''total_topics'', JNum 1),
           (''total_questions'', JNum 2)]"

definition online_env :: env where
  "online_env =
     offline_env\<lparr>fetch := (\<lambda>req. FetchResponse \<lparr>ok = True, status = 200, statusText = ''OK'',
                                                json_body = Some python_payload\<rparr>)\<rparr>"

text \<open>The same backend a quarter of a second later.\<close>

definition later_env :: env where
  "later_env = online_env\<lparr>now_ms := 1700000000250, now_iso := ''2023-11-14T22:13:20.250Z''\<rparr>"

text \<open>The state of a freshly loaded page with nothing stored.\<close>

definition empty_app :: app where
  "empty_app =
     \<lparr>subjects = [], stored_subjects = None, currentTaskData = None, taskHistory = None,
      currentTaskQuestions = None, taskAnswers = None, taskScores = None,
      questionsContainer = [], subjectsContainer = [], subjectInput = [], notices = [],
      location = None\<rparr>"

definition python_subject :: subject where
  "python_subject =
     \<lparr>subj_id = 1700000000000, subj_name = ''Python'',
      subj_topics = [\<lparr>topic_id = ''topic-0'', topic_name = JStr ''Functions'',
                      topic_questions = JArr [JStr ''What is a function?'',
                                              JStr ''What does return do?'']\<rparr>],
      isAI = True, createdAt = ''2023-11-14T22:13:20.000Z''\<rparr>"

definition java_subject :: subject where
  "java_subject =
     \<lparr>subj_id = 1700000000001, subj_name = ''Java'', subj_topics = [],
      isAI = True, createdAt = ''2023-11-14T22:13:20.001Z''\<rparr>"

text \<open>A task on the topic above, its two cached questions still to be regenerated.\<close>

definition functions_task :: task_data where
  "functions_task =
     \<lparr>subjectId = 1700000000000, topicId = ''topic-0'', td_subject = ''Python'',
      td_topic = JStr ''Functions'',
      td_questions = JArr [JStr ''What is a function?'', JStr ''What does return do?''],
      needsGeneration = True, apiGenerated = False\<rparr>"

text \<open>
  A task page showing \<open>n\<close> questions of which the first \<open>k\<close> were answered and the first
  \<open>c\<close> of those were judged correct.
\<close>

definition session :: "nat \<Rightarrow> nat \<Rightarrow> nat \<Rightarrow> app" where
  "session n k c =
     empty_app\<lparr>subjects := [python_subject], stored_subjects := Some [python_subject],
               currentTaskData := Some functions_task,
               currentTaskQuestions := Some (replicate n (question_obj (JStr ''Q''))),
               taskAnswers := Some (replicate k (Some ''an answer'') @ replicate (n - k) None),
               taskScores := Some (replicate c (Some 1) @ replicate (k - c) (Some 0)
                                   @ replicate (n - k) None)\<rparr>"

section \<open>Notions of the specification\<close>

text \<open>
  An argument that should be a string is a string or absent (\<^verbatim>\<open>undefined\<close> or \<^verbatim>\<open>null\<close>).
  It is blank when it is absent or a string that is empty after trimming, and missing
  when it is absent or the empty string.
\<close>

definition string_or_absent :: "jsval \<Rightarrow> bool" where
  "string_or_absent v =
     (case v of JUndefined \<Rightarrow> True | JNull \<Rightarrow> True | JStr s \<Rightarrow> True | _ \<Rightarrow> False)"

definition blank :: "jsval \<Rightarrow> bool" where
  "blank v =
     (case v of JUndefined \<Rightarrow> True | JNull \<Rightarrow> True | JStr s \<Rightarrow> trim s = [] | _ \<Rightarrow> False)"

definition missing :: "jsval \<Rightarrow> bool" where
  "missing v =
     (case v of JUndefined \<Rightarrow> True | JNull \<Rightarrow> True | JStr s \<Rightarrow> s = [] | _ \<Rightarrow> False)"

text \<open>
  The score as the specification states it: \<open>100 \<times> correctCount / totalQuestions\<close>
  rounded to the nearest integer, a half rounded up as \<^verbatim>\<open>Math.round\<close> does.
\<close>

definition round_percent :: "nat \<Rightarrow> nat \<Rightarrow> int" where
  "round_percent correctCount totalQuestions =
     \<lfloor>100 * (of_nat correctCount :: rat) / of_nat totalQuestions + 1 / 2\<rfloor>"

text \<open>
  The exact percentage lies half way between two integers:
  \<open>100 \<times> correctCount / totalQuestions + 1/2\<close>, that is
  \<open>(200 \<times> correctCount + totalQuestions) / (2 \<times> totalQuestions)\<close>, is an integer.
\<close>

definition half_way :: "nat \<Rightarrow> nat \<Rightarrow> bool" where
  "half_way correctCount totalQuestions =
     ((200 * correctCount + totalQuestions) mod (2 * totalQuestions) = 0)"

text \<open>The persisted task history, an absent key read as the empty list.\<close>

definition stored_history :: "app \<Rightarrow> history_entry list" where
  "stored_history st = (case taskHistory st of None \<Rightarrow> [] | Some h \<Rightarrow> h)"

text \<open>
  Two names are the same case-insensitively; no two subjects of a collection share a
  name case-insensitively.
\<close>

definition same_name :: "string \<Rightarrow> string \<Rightarrow> bool" where
  "same_name a b = (toLowerCase a = toLowerCase b)"

definition unique_names :: "subject list \<Rightarrow> bool" where
  "unique_names xs = distinct (map (\<lambda>s. toLowerCase (subj_name s)) xs)"

text \<open>
  The names on a page are apart when the names of the subjects and the names that the
  suspended calls of \<open>generateSubject\<close> will give to their subjects are all different
  case-insensitively.
\<close>

definition names_apart :: "page \<Rightarrow> bool" where
  "names_apart pg =
     distinct (map toLowerCase (map subj_name (subjects (fst pg)) @ map fst (snd pg)))"

text \<open>
  An event asks for a name that is not in flight: it is not a press of Enter, or no
  suspended call was made for the trimmed input, case-insensitively. In a sequence of
  events without overlap, every event is such when its turn comes.
\<close>

definition not_in_flight :: "event \<Rightarrow> page \<Rightarrow> bool" where
  "not_in_flight ev pg =
     (case ev of
        Enter \<Rightarrow> list_all (\<lambda>c. toLowerCase (fst c) \<noteq> toLowerCase (trim (subjectInput (fst pg))))
                   (snd pg)
      | _ \<Rightarrow> True)"

fun no_overlap :: "(env \<times> event) list \<Rightarrow> page \<Rightarrow> bool" where
  "no_overlap [] pg = True"
| "no_overlap ((env, ev) # es) pg = (not_in_flight ev pg \<and> no_overlap es (dispatch env ev pg))"

section \<open>Scoring and bulk submission\<close>

text \<open>
  Rounding to a double: \<open>ilog2 x\<close> is the exponent of \<open>x\<close>, the power of two at or below
  it, so the nearest double is within \<open>x / 2^53\<close> of \<open>x\<close>.
\<close>

lemma ilog2_le:
  assumes "0 < x"
  shows "2 powi (ilog2 x) \<le> x"
proof -
  obtain a b where q: "quotient_of x = (a, b)" by (cases "quotient_of x")
  then have b: "0 < b" and x: "x = of_int a / of_int b"
    by (auto dest: quotient_of_denom_pos quotient_of_div)
  from assms x b have a: "0 < a"
    by (simp add: zero_less_divide_iff)
  define k where "k = bitlen a - bitlen b"
  show ?thesis
  proof (cases "2 powi k \<le> x")
    case True
    then show ?thesis by (simp add: ilog2_def q k_def Let_def)
  next
    case False
    from bitlen_bounds [OF a] have la: "2 ^ nat (bitlen a - 1) \<le> a" by simp
    from bitlen_bounds [OF b] have lb: "b < 2 ^ nat (bitlen b)" by simp
    have pa: "0 \<le> bitlen a - 1" using a by (simp add: bitlen_def floorlog_def split: if_splits)
    have pb: "0 \<le> bitlen b" by (rule bitlen_nonneg)
    have 1: "(2::rat) powi (bitlen a - 1) \<le> of_int a"
    proof -
      have "(2::rat) powi (bitlen a - 1) = 2 ^ nat (bitlen a - 1)"
        using pa by (simp add: power_int_def)
      also have "\<dots> = of_int (2 ^ nat (bitlen a - 1))" by simp
      also have "\<dots> \<le> of_int a" using la by (simp only: of_int_le_iff)
      finally show ?thesis .
    qed
    have 2: "of_int b \<le> (2::rat) powi (bitlen b)"
    proof -
      have "of_int b \<le> (of_int (2 ^ nat (bitlen b)) :: rat)" using lb by (simp only: of_int_le_iff)
      also have "\<dots> = 2 powi (bitlen b)" using pb by (simp add: power_int_def)
      finally show ?thesis .
    qed
    have ke: "k - 1 = (bitlen a - 1) - bitlen b" by (simp add: k_def)
    have "(2::rat) powi (k - 1) = 2 powi ((bitlen a - 1) - bitlen b)"
      by (simp only: ke)
    also have "\<dots> = 2 powi (bitlen a - 1) / 2 powi (bitlen b)"
      by (rule power_int_diff) simp
    also have "\<dots> \<le> of_int a / 2 powi (bitlen b)"
      using 1 by (simp add: divide_right_mono)
    also have "\<dots> \<le> of_int a / of_int b"
      using 2 a b by (simp add: divide_left_mono)
    finally have "(2::rat) powi (k - 1) \<le> x" using x by simp
    with False show ?thesis by (simp add: ilog2_def q k_def Let_def)
  qed
qed

lemma ilog2_less:
  assumes "0 < x"
  shows "x < 2 powi (ilog2 x + 1)"
proof -
  obtain a b where q: "quotient_of x = (a, b)" by (cases "quotient_of x")
  then have b: "0 < b" and x: "x = of_int a / of_int b"
    by (auto dest: quotient_of_denom_pos quotient_of_div)
  from assms x b have a: "0 < a"
    by (simp add: zero_less_divide_iff)
  define k where "k = bitlen a - bitlen b"
  show ?thesis
  proof (cases "2 powi k \<le> x")
    case False
    then show ?thesis by (simp add: ilog2_def q k_def Let_def)
  next
    case True
    from bitlen_bounds [OF a] have la: "a < 2 ^ nat (bitlen a)" by simp
    from bitlen_bounds [OF b] have lb: "2 ^ nat (bitlen b - 1) \<le> b" by simp
    have pa: "0 \<le> bitlen a" by (rule bitlen_nonneg)
    have pb: "0 \<le> bitlen b - 1" using b by (simp add: bitlen_def floorlog_def split: if_splits)
    have 1: "of_int a < (2::rat) powi (bitlen a)"
    proof -
      have "of_int a < (of_int (2 ^ nat (bitlen a)) :: rat)" using la by (simp only: of_int_less_iff)
      also have "\<dots> = 2 powi (bitlen a)" using pa by (simp add: power_int_def)
      finally show ?thesis .
    qed
    have 2: "(2::rat) powi (bitlen b - 1) \<le> of_int b"
    proof -
      have "(2::rat) powi (bitlen b - 1) = of_int (2 ^ nat (bitlen b - 1))"
        using pb by (simp add: power_int_def)
      also have "\<dots> \<le> of_int b" using lb by (simp only: of_int_le_iff)
      finally show ?thesis .
    qed
    have p: "(0::rat) < 2 powi (bitlen b - 1)" by simp
    have "x = of_int a / of_int b" by (rule x)
    also have "\<dots> \<le> of_int a / 2 powi (bitlen b - 1)"
    proof (rule divide_left_mono)
      show "(2::rat) powi (bitlen b - 1) \<le> of_int b" by (rule 2)
      show "(0::rat) \<le> of_int a" using a by simp
      show "(0::rat) < of_int b * 2 powi (bitlen b - 1)" using b p by simp
    qed
    also have "\<dots> < 2 powi (bitlen a) / 2 powi (bitlen b - 1)"
      using 1 p by (simp add: divide_strict_right_mono)
    also have "\<dots> = 2 powi (bitlen a - (bitlen b - 1))"
      by (rule power_int_diff [symmetric]) simp
    also have "bitlen a - (bitlen b - 1) = k + 1" by (simp add: k_def)
    finally have "x < 2 powi (k + 1)" .
    with True show ?thesis by (simp add: ilog2_def q k_def Let_def)
  qed
qed

text \<open>So the significand that \<open>fl\<close> rounds has 53 bits.\<close>

lemma significand_range:
  assumes "0 < x"
  shows "2 ^ 52 \<le> x / 2 powi (ilog2 x - 52)" and "x / 2 powi (ilog2 x - 52) < 2 ^ 53"
proof -
  have e: "(2::rat) powi (ilog2 x - 52) = 2 powi (ilog2 x) / 2 ^ 52"
    using power_int_diff [of "2::rat" "ilog2 x" 52] by simp
  have p: "(0::rat) < 2 powi (ilog2 x)" by simp
  have u: "(2::rat) powi (ilog2 x + 1) = 2 powi (ilog2 x) * 2"
    using power_int_add [of "2::rat" "ilog2 x" 1] by simp
  show "2 ^ 52 \<le> x / 2 powi (ilog2 x - 52)"
    using ilog2_le [OF assms] p by (simp add: e field_simps)
  have "x < 2 powi (ilog2 x) * 2"
    using ilog2_less [OF assms] by (simp only: u)
  then show "x / 2 powi (ilog2 x - 52) < 2 ^ 53"
    using p by (simp add: e field_simps)
qed

lemma fl_error:
  assumes "0 < x"
  shows "\<bar>fl x - x\<bar> \<le> x / 2 ^ 53"
proof -
  define e where "e = ilog2 x - 52"
  define m where "m = x / 2 powi e"
  define f where "f = \<lfloor>m\<rfloor>"
  define n where "n = (if m - of_int f < 1 / 2 then f
                  else if 1 / 2 < m - of_int f then f + 1
                  else if even f then f else f + 1)"
  have p: "(0::rat) < 2 powi e" by simp
  have fl: "fl x = of_int n * 2 powi e"
    using assms by (simp add: fl_def Let_def e_def m_def f_def n_def)
  have xm: "m * 2 powi e = x" by (simp add: m_def)
  have fm: "of_int f \<le> m" "m < of_int f + 1"
    unfolding f_def by linarith+
  have near: "\<bar>of_int n - m\<bar> \<le> 1 / 2"
    using fm unfolding n_def by (auto split: if_splits)
  have "(of_int n - m) * 2 powi e = of_int n * 2 powi e - m * 2 powi e"
    by (simp add: left_diff_distrib)
  also have "\<dots> = fl x - x" by (simp only: fl xm)
  finally have eq: "fl x - x = (of_int n - m) * 2 powi e" by simp
  have "\<bar>fl x - x\<bar> = \<bar>of_int n - m\<bar> * \<bar>2 powi e\<bar>"
    by (simp only: eq abs_mult)
  also have "\<dots> = \<bar>of_int n - m\<bar> * 2 powi e" using p by simp
  also have "\<dots> \<le> 1 / 2 * 2 powi e"
    using near p by (simp add: mult_right_mono)
  also have "\<dots> = 2 powi (ilog2 x) / 2 ^ 53"
    using power_int_diff [of "2::rat" "ilog2 x" 52] by (simp add: e_def)
  also have "\<dots> \<le> x / 2 ^ 53"
    using ilog2_le [OF assms] by (simp add: divide_right_mono)
  finally show ?thesis .
qed


lemma fl_pos:
  assumes "0 < x"
  shows "0 < fl x"
proof -
  have "x / 2 ^ 53 < x" using assms by (simp add: field_simps)
  with fl_error [OF assms] show ?thesis by linarith
qed

text \<open>The product computed for a quotient of at most 1 is within \<open>2^-45\<close> of the exact percentage.\<close>

lemma percent_error:
  assumes "0 < x" and "x \<le> 1"
  shows "\<bar>fl (fl x * 100) - 100 * x\<bar> < 1 / 2 ^ 45"
proof -
  define y where "y = fl x"
  define z where "z = fl (y * 100)"
  have y: "0 < y" unfolding y_def using assms(1) by (rule fl_pos)
  have "\<bar>y - x\<bar> \<le> x / 2 ^ 53" unfolding y_def using assms(1) by (rule fl_error)
  then have e1: "y - x \<le> x / 2 ^ 53" "x - y \<le> x / 2 ^ 53" by linarith+
  have "0 < y * 100" using y by simp
  then have "\<bar>z - y * 100\<bar> \<le> y * 100 / 2 ^ 53" unfolding z_def by (rule fl_error)
  then have e2: "z - y * 100 \<le> y * 100 / 2 ^ 53" "y * 100 - z \<le> y * 100 / 2 ^ 53" by linarith+
  have "z - 100 * x < 1 / 2 ^ 45" using e1 e2 assms by simp
  moreover have "100 * x - z < 1 / 2 ^ 45" using e1 e2 assms by simp
  ultimately show ?thesis unfolding z_def y_def by linarith
qed


lemma round_percent_div:
  assumes "0 < t"
  shows "round_percent c t = (200 * int c + int t) div (2 * int t)"
proof -
  have "100 * (of_nat c :: rat) / of_nat t + 1 / 2 = of_int (200 * int c + int t) / of_int (2 * int t)"
    using assms by (simp add: field_simps)
  then show ?thesis
    unfolding round_percent_def by (simp only: floor_divide_of_int_eq)
qed

lemma floor_half: "\<lfloor>(1::rat) / 2\<rfloor> = 0"
  by (rule floor_unique) simp_all

lemma final_score_zero:
  assumes "0 < t"
  shows "final_score 0 t = Num 0"
  using assms
  by (simp add: final_score_def js_div_def js_times100_def Math_round_def fl_def floor_half)

text \<open>
  Away from the half-way cases the score of the source is the score of the
  specification: for up to \<open>2^44\<close> questions of which at most all are correct, the two
  roundings of the double precision computation cannot move the percentage across a
  rounding boundary.
\<close>

lemma final_score_exact:
  assumes t: "0 < t" "t \<le> 2 ^ 44" and c: "c \<le> t" and nt: "\<not> half_way c t"
  shows "final_score c t = Num (of_int (round_percent c t))"
proof (cases "c = 0")
  case True
  with t show ?thesis by (simp add: final_score_zero round_percent_def floor_half)
next
  case False
  define x :: rat where "x = of_nat c / of_nat t"
  define z where "z = fl (fl x * 100)"
  define n where "n = (200 * int c + int t) div (2 * int t)"
  define r where "r = (200 * int c + int t) mod (2 * int t)"
  define D :: rat where "D = of_int (2 * int t)"
  have x: "0 < x" "x \<le> 1" using False t c by (simp_all add: x_def)
  have D: "0 < D" using t by (simp add: D_def)
  have D45: "D \<le> 2 ^ 45"
  proof -
    have "2 * int t \<le> 2 ^ 45" using t(2) by simp
    then have "(of_int (2 * int t) :: rat) \<le> of_int (2 ^ 45)" by (simp only: of_int_le_iff)
    then show ?thesis by (simp add: D_def)
  qed
  have r0: "r \<noteq> 0"
  proof
    assume "r = 0"
    then have "int ((200 * c + t) mod (2 * t)) = 0"
      unfolding r_def by (simp add: zmod_int)
    with nt show False by (simp add: half_way_def)
  qed
  have rb: "1 \<le> r" "r \<le> 2 * int t - 1"
    using r0 t pos_mod_sign [of "2 * int t" "200 * int c + int t"]
      pos_mod_bound [of "2 * int t" "200 * int c + int t"]
    unfolding r_def by linarith+
  have split: "200 * int c + int t = 2 * int t * n + r"
    unfolding n_def r_def by simp
  have "100 * x + 1 / 2 = of_int (200 * int c + int t) / D"
    using t by (simp add: x_def D_def field_simps)
  also have "\<dots> = of_int n + of_int r / D"
    using D unfolding split by (simp add: D_def field_simps)
  finally have w: "100 * x + 1 / 2 = of_int n + of_int r / D" .
  have R1: "1 / D \<le> of_int r / D"
    using rb(1) D by (simp add: divide_right_mono)
  have "(of_int r :: rat) \<le> of_int (2 * int t - 1)" using rb(2) by (simp only: of_int_le_iff)
  then have "of_int r \<le> D - 1" by (simp add: D_def)
  then have "of_int r / D \<le> (D - 1) / D" using D by (simp add: divide_right_mono)
  also have "\<dots> = 1 - 1 / D" using D by (simp add: field_simps)
  finally have R2: "of_int r / D \<le> 1 - 1 / D" .
  have "1 / 2 ^ 45 \<le> 1 / D" using D D45 by (simp add: field_simps)
  moreover have "\<bar>z - 100 * x\<bar> < 1 / 2 ^ 45"
    unfolding z_def using x by (rule percent_error)
  ultimately have d: "z - 100 * x < 1 / D" "100 * x - z < 1 / D" by linarith+
  have "\<lfloor>z + 1 / 2\<rfloor> = n"
  proof (rule floor_unique)
    show "of_int n \<le> z + 1 / 2" using w R1 d by linarith
    show "z + 1 / 2 < of_int n + 1" using w R2 d by linarith
  qed
  moreover have "round_percent c t = n"
    unfolding n_def using t(1) by (rule round_percent_div)
  moreover have "final_score c t = Num (of_int \<lfloor>z + 1 / 2\<rfloor>)"
    using t(1) by (simp add: final_score_def js_div_def js_times100_def Math_round_def z_def x_def)
  ultimately show ?thesis by simp
qed

lemma final_score_23_40: "final_score 23 40 = Num 57"
  by code_simp

lemma final_score_2_5: "final_score 2 5 = Num 40"
  by code_simp

text \<open>
  Claim C1, at a session of 40 questions, all answered, 23 judged correct: a half-way
  case. The specification's score is \<open>round (100 \<times> 23 / 40) = round 57.5 = 58\<close>. The
  source computes \<^verbatim>\<open>Math.round((23 / 40) * 100)\<close> in double precision: the quotient is
  rounded below 0.575, its product with 100 is rounded to 57.49999999999999, and the
  entry appended to the history carries the score 57.
\<close>

theorem submitAllTaskAnswers_score_23_of_40:
  "taskHistory (fst (submitAllTaskAnswers offline_env (session 40 40 23))) =
     Some [\<lparr>h_subject = ''Python'', h_topic = JStr ''Functions'', h_totalQuestions = 40,
            h_correctAnswers = 23, h_score = Num 57, h_date = ''2023-11-14T22:13:20.000Z'',
            h_timestamp = 1700000000000\<rparr>]
   \<and> round_percent 23 40 = 58"
  by (simp add: submitAllTaskAnswers_def session_def empty_app_def functions_task_def
        offline_env_def final_score_23_40 round_percent_def)

text \<open>
  Claim C2 as stated fails: after the bulk submission of a session of 5 questions (3
  answered, 2 correct) the entry with score 40 has been appended, but the stored task
  record is still there; nothing in the source removes it.
\<close>

theorem submitAllTaskAnswers_keeps_session:
  "currentTaskData (fst (submitAllTaskAnswers offline_env (session 5 3 2))) = Some functions_task
   \<and> stored_history (fst (submitAllTaskAnswers offline_env (session 5 3 2))) =
     [\<lparr>h_subject = ''Python'', h_topic = JStr ''Functions'', h_totalQuestions = 5,
       h_correctAnswers = 2, h_score = Num 40, h_date = ''2023-11-14T22:13:20.000Z'',
       h_timestamp = 1700000000000\<rparr>]"
  by (simp add: submitAllTaskAnswers_def session_def empty_app_def functions_task_def
        offline_env_def stored_history_def final_score_2_5)

text \<open>
  Claim C2, amended. On a task page that shows questions (the task record is stored
  and the three globals are set): if fewer questions are answered than shown and the
  user declines the dialog, nothing changes. Otherwise exactly one entry is appended
  at the end of the stored history, the entries before it unchanged; it holds the
  task's subject and topic, the number of questions (answered or not), the number of
  scores equal to 1, the score computed from the two, the date and the timestamp. The
  stored task record is left as it was (it is not cleared), and so are the subjects.
\<close>

theorem submitAllTaskAnswers_appends_one:
  assumes "currentTaskData st = Some taskData"
    and "currentTaskQuestions st = Some questions"
    and "taskAnswers st = Some answers"
    and "taskScores st = Some scores"
  shows "(length (filter (\<lambda>a. a \<noteq> None) answers) < length questions \<and> \<not> confirm_ok env \<longrightarrow>
            submitAllTaskAnswers env st = (st, None))
       \<and> (length questions \<le> length (filter (\<lambda>a. a \<noteq> None) answers) \<or> confirm_ok env \<longrightarrow>
            snd (submitAllTaskAnswers env st) = None
            \<and> stored_history (fst (submitAllTaskAnswers env st)) =
                stored_history st @
                  [\<lparr>h_subject = td_subject taskData, h_topic = td_topic taskData,
                    h_totalQuestions = length questions,
                    h_correctAnswers = length (filter (\<lambda>s. s = Some 1) scores),
                    h_score = final_score (length (filter (\<lambda>s. s = Some 1) scores)) (length questions),
                    h_date = now_iso env, h_timestamp = now_ms env\<rparr>]
            \<and> currentTaskData (fst (submitAllTaskAnswers env st)) = Some taskData
            \<and> subjects (fst (submitAllTaskAnswers env st)) = subjects st
            \<and> stored_subjects (fst (submitAllTaskAnswers env st)) = stored_subjects st)"
  using assms
  by (auto simp: submitAllTaskAnswers_def stored_history_def Let_def split: option.splits)

text \<open>
  The amended claim at the session of 5 questions, 3 answered and 2 correct: with a
  user who confirms, the history gains the entry with score 40; with a user who
  declines, the state is unchanged.
\<close>

theorem submitAllTaskAnswers_appends_one_witness:
  "stored_history (fst (submitAllTaskAnswers offline_env (session 5 3 2))) =
     [\<lparr>h_subject = ''Python'', h_topic = JStr ''Functions'', h_totalQuestions = 5,
       h_correctAnswers = 2, h_score = Num 40, h_date = ''2023-11-14T22:13:20.000Z'',
       h_timestamp = 1700000000000\<rparr>]
   \<and> submitAllTaskAnswers declining_env (session 5 3 2) = (session 5 3 2, None)"
  using submitAllTaskAnswers_appends_one [of "session 5 3 2" functions_task
          "replicate 5 (question_obj (JStr ''Q''))"
          "replicate 3 (Some ''an answer'') @ replicate 2 None"
          "replicate 2 (Some 1) @ replicate 1 (Some 0) @ replicate 2 None" offline_env]
        submitAllTaskAnswers_appends_one [of "session 5 3 2" functions_task
          "replicate 5 (question_obj (JStr ''Q''))"
          "replicate 3 (Some ''an answer'') @ replicate 2 None"
          "replicate 2 (Some 1) @ replicate 1 (Some 0) @ replicate 2 None" declining_env]
  by (simp add: session_def empty_app_def functions_task_def offline_env_def declining_env_def
        stored_history_def final_score_2_5)

section \<open>Normalisation of question shapes\<close>

lemma getp_question_obj [simp]: "getp (question_obj v) ''question'' = Inr v"
  by (simp add: question_obj_def)

lemma normalize_rendered_cases:
  assumes "normalize_rendered env q = Inr q'"
  shows "(\<exists>v. q' = question_obj v)
         \<or> (\<exists>kvs a. q' = JObj kvs \<and> getp q' ''question'' = Inr a \<and> truthy a)"
  using assms
  by (cases q)
     (auto simp: normalize_rendered_def and_then_def split: if_splits sum.splits option.splits)

text \<open>A value with a truthy \<^verbatim>\<open>question\<close> is an object, and normalisation returns it as it is.\<close>

lemma normalize_rendered_canonical:
  assumes "getp q ''question'' = Inr v" and "truthy v"
  shows "normalize_rendered env q = Inr q"
  using assms by (cases q) (auto simp: normalize_rendered_def and_then_def)

lemma normalize_rendered_empty_obj:
  assumes "\<not> truthy v"
  shows "normalize_rendered env (question_obj v) = Inr (question_obj (JStr ''[object Object]''))"
  using assms by (simp add: normalize_rendered_def and_then_def question_obj_def)

text \<open>
  Claim C3 as stated fails on the empty string: its normal form is \<^verbatim>\<open>{question: ""}\<close>,
  and normalising that gives \<^verbatim>\<open>{question: "[object Object]"}\<close>, because an empty
  \<^verbatim>\<open>question\<close> counts as missing.
\<close>

theorem normalize_rendered_empty_not_idempotent:
  "normalize_rendered offline_env (JStr []) = Inr (question_obj (JStr []))
   \<and> normalize_rendered offline_env (question_obj (JStr [])) =
       Inr (question_obj (JStr ''[object Object]''))
   \<and> question_obj (JStr ''[object Object]'') \<noteq> question_obj (JStr [])"
  by (simp add: normalize_rendered_def question_obj_def and_then_def)

text \<open>
  Claim C3, amended. Let \<open>q'\<close> be the normal form of any question value \<open>q\<close>.
  Normalising \<open>q'\<close> again returns \<open>q'\<close> exactly when the \<^verbatim>\<open>question\<close> of \<open>q'\<close> is truthy
  (for a text: non-empty). So normalisation is idempotent on every input whose
  normalised question is non-empty, and on no other.
\<close>

theorem normalize_rendered_idempotent:
  assumes "normalize_rendered env q = Inr q'"
  shows "(normalize_rendered env q' = Inr q') = (\<exists>v. getp q' ''question'' = Inr v \<and> truthy v)"
proof (cases "\<exists>v. getp q' ''question'' = Inr v \<and> truthy v")
  case True
  then show ?thesis using normalize_rendered_canonical by blast
next
  case False
  with normalize_rendered_cases [OF assms] obtain v where v: "q' = question_obj v"
    by blast
  with False have nv: "\<not> truthy v" by simp
  have "normalize_rendered env q' = Inr (question_obj (JStr ''[object Object]''))"
    using normalize_rendered_empty_obj [OF nv] v by simp
  moreover have "question_obj (JStr ''[object Object]'') \<noteq> q'"
    using nv v by (auto simp: question_obj_def)
  ultimately show ?thesis using False by simp
qed

text \<open>The amended claim at the question "What is a list?".\<close>

theorem normalize_rendered_idempotent_witness:
  "normalize_rendered offline_env (JStr ''What is a list?'') =
     Inr (question_obj (JStr ''What is a list?''))
   \<and> normalize_rendered offline_env (question_obj (JStr ''What is a list?'')) =
       Inr (question_obj (JStr ''What is a list?''))"
proof -
  have a: "normalize_rendered offline_env (JStr ''What is a list?'') =
             Inr (question_obj (JStr ''What is a list?''))"
    by (simp add: normalize_rendered_def)
  show ?thesis using a normalize_rendered_idempotent [OF a] by simp
qed

text \<open>
  Claim C4, at a question object whose only text-bearing field is \<^verbatim>\<open>title\<close>. The
  ingestion point in \<open>generateQuestionsForTopic\<close> tries \<^verbatim>\<open>question\<close> and \<^verbatim>\<open>text\<close> only
  and stores the text \<^verbatim>\<open>[object Object]\<close>; \<open>renderTaskQuestions\<close> and \<open>submitTaskAnswer\<close>
  also try \<^verbatim>\<open>title\<close> and find the question.
\<close>

theorem normalizations_differ_on_title:
  "normalize_generated offline_env (JObj [(''title'', JStr ''What is a closure?'')]) =
     Inr (question_obj (JStr ''[object Object]''))
   \<and> normalize_rendered offline_env (JObj [(''title'', JStr ''What is a closure?'')]) =
     Inr (question_obj (JStr ''What is a closure?''))
   \<and> extract_text offline_env (JObj [(''title'', JStr ''What is a closure?'')]) =
     Inr (JStr ''What is a closure?'')"
  by (simp add: normalize_generated_def normalize_rendered_def extract_text_def and_then_def
        question_obj_def)

text \<open>
  Where they agree: on a string, and on a value with a truthy \<^verbatim>\<open>question\<close> or a truthy
  \<^verbatim>\<open>text\<close>, both normalisations succeed and give the same question.
\<close>

lemma normalizations_agree:
  assumes "typeof q = ''string''
           \<or> (\<exists>a. getp q ''question'' = Inr a \<and> truthy a)
           \<or> (\<exists>b. getp q ''text'' = Inr b \<and> truthy b)"
  shows "\<exists>g r v. normalize_generated env q = Inr g \<and> normalize_rendered env q = Inr r
           \<and> getp g ''question'' = Inr v \<and> getp r ''question'' = Inr v"
  using assms
  by (cases q) (auto simp: normalize_generated_def normalize_rendered_def and_then_def
                     split: option.splits)

section \<open>Argument validation of the client\<close>

lemma trim_Nil [simp]: "trim [] = []"
  by (simp add: trim_def)

text \<open>
  Claim C5. If the question is blank, or the question is a string or absent and the
  answer is blank, \<open>verifyAnswer\<close> fails with a validation error and has sent no
  request. If both are strings that are non-empty after trimming, it sends exactly
  one request, to \<^verbatim>\<open>/verify-answer\<close>, carrying both trimmed texts. And whatever the
  arguments are, a request is sent only when both are such strings.
\<close>

theorem verifyAnswer_validation:
  "(blank question \<or> string_or_absent question \<and> blank answer \<longrightarrow>
      (\<exists>m. verifyAnswer env question answer = ([], Inl (ValidationError m))))
   \<and> (question = JStr q \<and> trim q \<noteq> [] \<and> answer = JStr a \<and> trim a \<noteq> [] \<longrightarrow>
      fst (verifyAnswer env question answer) =
        [\<lparr>endpoint = ''/verify-answer'',
          query = [(''question'', trim q), (''answer'', trim a)],
          http_method = ''POST'', body = None\<rparr>])
   \<and> (fst (verifyAnswer env question answer) \<noteq> [] \<longrightarrow>
        (\<exists>q' a'. question = JStr q' \<and> trim q' \<noteq> [] \<and> answer = JStr a' \<and> trim a' \<noteq> []))"
proof (intro conjI impI)
  assume "blank question \<or> string_or_absent question \<and> blank answer"
  then show "\<exists>m. verifyAnswer env question answer = ([], Inl (ValidationError m))"
    by (cases question; cases answer)
       (auto simp: blank_def string_or_absent_def falsy_def verifyAnswer_def)
next
  assume "question = JStr q \<and> trim q \<noteq> [] \<and> answer = JStr a \<and> trim a \<noteq> []"
  then show "fst (verifyAnswer env question answer) =
        [\<lparr>endpoint = ''/verify-answer'',
          query = [(''question'', trim q), (''answer'', trim a)],
          http_method = ''POST'', body = None\<rparr>]"
    by (auto simp: falsy_def verifyAnswer_def APIClient_request_def)
next
  assume "fst (verifyAnswer env question answer) \<noteq> []"
  then show "\<exists>q' a'. question = JStr q' \<and> trim q' \<noteq> [] \<and> answer = JStr a' \<and> trim a' \<noteq> []"
    by (cases question; cases answer)
       (auto simp: falsy_def verifyAnswer_def split: if_splits)
qed

text \<open>
  Claim C5 at a question of spaces, at an absent answer, and at the question
  " What is 2+2? " with the answer "4".
\<close>

theorem verifyAnswer_validation_witness:
  "blank (JStr ''   '') \<and> blank JUndefined
   \<and> verifyAnswer offline_env (JStr ''   '') (JStr ''4'') =
       ([], Inl (ValidationError ''Question cannot be empty''))
   \<and> verifyAnswer offline_env (JStr ''q'') JUndefined =
       ([], Inl (ValidationError ''Answer cannot be empty''))
   \<and> fst (verifyAnswer offline_env (JStr '' What is 2+2? '') (JStr ''4'')) =
        [\<lparr>endpoint = ''/verify-answer'',
          query = [(''question'', ''What is 2+2?''), (''answer'', ''4'')],
          http_method = ''POST'', body = None\<rparr>]"
  using verifyAnswer_validation [where question = "JStr ''   ''" and answer = "JStr ''4''"
                                   and env = offline_env]
        verifyAnswer_validation [where question = "JStr ''q''" and answer = JUndefined
                                   and env = offline_env]
        verifyAnswer_validation [where question = "JStr '' What is 2+2? ''" and answer = "JStr ''4''"
                                   and q = "'' What is 2+2? ''" and a = "''4''"
                                   and env = offline_env]
  by (simp add: blank_def string_or_absent_def falsy_def trim_def js_ws_def verifyAnswer_def)

text \<open>
  Claim C6. \<open>generateQuestions\<close> fails with a validation error, having sent no request,
  when the subject or the topic is missing or the count is a number outside 1..20
  (finite or infinite), in particular for 0 and 21. With a non-empty subject and topic
  and a count from 1 to 20, in particular 1 and 20, validation passes and exactly one
  request is constructed and sent, to \<^verbatim>\<open>/generate-questions\<close>. (A count that is not a
  number, \<^verbatim>\<open>NaN\<close>, fails neither comparison and is not rejected.)
\<close>

theorem generateQuestions_validation:
  "(missing subject \<or> missing topic
      \<or> count = Num r \<and> (r < 1 \<or> 20 < r) \<or> count = PosInf \<or> count = NegInf \<longrightarrow>
      (\<exists>m. generateQuestions env subject topic count = ([], Inl (ValidationError m))))
   \<and> (subject = JStr s \<and> s \<noteq> [] \<and> topic = JStr t \<and> t \<noteq> [] \<and> count = Num r \<and> 1 \<le> r \<and> r \<le> 20 \<longrightarrow>
      fst (generateQuestions env subject topic count) =
        [\<lparr>endpoint = ''/generate-questions'',
          query = [(''subject'', trim s), (''topic'', trim t), (''count'', num_str env r)],
          http_method = ''POST'', body = None\<rparr>])"
proof (intro conjI impI)
  assume "missing subject \<or> missing topic
      \<or> count = Num r \<and> (r < 1 \<or> 20 < r) \<or> count = PosInf \<or> count = NegInf"
  then show "\<exists>m. generateQuestions env subject topic count = ([], Inl (ValidationError m))"
    by (cases subject; cases topic)
       (auto simp: missing_def falsy_def generateQuestions_def num_less_def num_greater_def)
next
  assume "subject = JStr s \<and> s \<noteq> [] \<and> topic = JStr t \<and> t \<noteq> [] \<and> count = Num r \<and> 1 \<le> r \<and> r \<le> 20"
  then show "fst (generateQuestions env subject topic count) =
        [\<lparr>endpoint = ''/generate-questions'',
          query = [(''subject'', trim s), (''topic'', trim t), (''count'', num_str env r)],
          http_method = ''POST'', body = None\<rparr>]"
    by (auto simp: generateQuestions_def falsy_def APIClient_request_def num_less_def
             num_greater_def jsnum_str_def split: prod.splits)
qed

text \<open>Claim C6 at the counts 0, 21, 1 and 20, and with the subject absent.\<close>

theorem generateQuestions_validation_witness:
  "generateQuestions offline_env (JStr ''Python'') (JStr ''Functions'') (Num 0) =
       ([], Inl (ValidationError ''Count must be between 1 and 20''))
   \<and> generateQuestions offline_env (JStr ''Python'') (JStr ''Functions'') (Num 21) =
       ([], Inl (ValidationError ''Count must be between 1 and 20''))
   \<and> generateQuestions offline_env JUndefined (JStr ''Functions'') (Num 5) =
       ([], Inl (ValidationError ''Subject and topic are required''))
   \<and> fst (generateQuestions offline_env (JStr ''Python'') (JStr ''Functions'') (Num 1)) =
        [\<lparr>endpoint = ''/generate-questions'',
          query = [(''subject'', ''Python''), (''topic'', ''Functions''), (''count'', ''1'')],
          http_method = ''POST'', body = None\<rparr>]
   \<and> fst (generateQuestions offline_env (JStr ''Python'') (JStr ''Functions'') (Num 20)) =
        [\<lparr>endpoint = ''/generate-questions'',
          query = [(''subject'', ''Python''), (''topic'', ''Functions''), (''count'', ''20'')],
          http_method = ''POST'', body = None\<rparr>]"
proof -
  have d: "dec (Suc 0) = ''1''" "dec 20 = ''20''"
    by code_simp+
  show ?thesis
    using generateQuestions_validation [where subject = "JStr ''Python''" and topic = "JStr ''Functions''"
                                         and count = "Num 0" and r = 0 and env = offline_env]
        generateQuestions_validation [where subject = "JStr ''Python''" and topic = "JStr ''Functions''"
                                         and count = "Num 21" and r = 21 and env = offline_env]
        generateQuestions_validation [where subject = JUndefined and topic = "JStr ''Functions''"
                                         and count = "Num 5" and r = 5 and env = offline_env]
        generateQuestions_validation [where subject = "JStr ''Python''" and topic = "JStr ''Functions''"
                                         and count = "Num 1" and r = 1 and env = offline_env
                                         and s = "''Python''" and t = "''Functions''"]
        generateQuestions_validation [where subject = "JStr ''Python''" and topic = "JStr ''Functions''"
                                         and count = "Num 20" and r = 20 and env = offline_env
                                         and s = "''Python''" and t = "''Functions''"]
    by (simp add: missing_def falsy_def trim_def js_ws_def generateQuestions_def num_less_def
          num_greater_def jsnum_str_def APIClient_request_def offline_env_def d)
qed

section \<open>Failure of question generation\<close>

text \<open>
  Claim C7, at a task with two cached questions in a browser that is offline. The
  \<^verbatim>\<open>catch\<close> block sets the container to the failure banner and then calls
  \<open>renderTaskQuestions\<close>, which assigns the container again: the cached questions are
  shown, the banner is gone.
\<close>

theorem generation_failure_banner_overwritten:
  "questionsContainer (fst (generateQuestionsForTopic offline_env functions_task
       (empty_app\<lparr>currentTaskData := Some functions_task\<rparr>))) =
     [QuestionsBlock [''What is a function?'', ''What does return do?'']]"
  by (simp add: generateQuestionsForTopic_def try_generate_def generateQuestions_def
        APIClient_request_def offline_env_def functions_task_def empty_app_def falsy_def
        has_questions_def js_gt0_def to_number_def and_then_def renderTaskQuestions_def
        normalize_rendered_def card_text_def question_obj_def trim_def js_ws_def num_less_def
        num_greater_def)

text \<open>
  Without cached questions the banner stays, followed by the hint to go back to the
  subjects, and no exception escapes.
\<close>

lemma generation_failure_without_cache:
  "generateQuestionsForTopic offline_env (functions_task\<lparr>td_questions := JArr []\<rparr>) empty_app =
     (empty_app\<lparr>questionsContainer := [ErrorBanner ''Failed to fetch'', BackToSubjects]\<rparr>, None)"
  by (simp add: generateQuestionsForTopic_def try_generate_def generateQuestions_def
        APIClient_request_def offline_env_def functions_task_def empty_app_def falsy_def
        has_questions_def js_gt0_def to_number_def and_then_def trim_def js_ws_def num_less_def
        num_greater_def)

lemma renderTaskQuestions_container:
  "questionsContainer (fst (renderTaskQuestions env qs st)) = questionsContainer st
   \<or> questionsContainer (fst (renderTaskQuestions env qs st)) = [NoQuestionsBlock]
   \<or> (\<exists>cards. questionsContainer (fst (renderTaskQuestions env qs st)) = [QuestionsBlock cards])"
  by (auto simp: renderTaskQuestions_def Let_def split: jsval.splits sum.splits)

lemma renderTaskQuestions_done:
  assumes "renderTaskQuestions env qs st = (st', None)"
  shows "questionsContainer st' = [NoQuestionsBlock]
         \<or> (\<exists>cards. questionsContainer st' = [QuestionsBlock cards])"
  using assms
  by (auto simp: renderTaskQuestions_def Let_def split: if_splits jsval.splits sum.splits)

lemma try_generate_done:
  assumes "try_generate env td st = ((st', td'), None)"
  shows "questionsContainer st' = [NoQuestionsBlock]
         \<or> (\<exists>cards. questionsContainer st' = [QuestionsBlock cards])"
  using assms
  by (auto simp: try_generate_def Let_def split: sum.splits prod.splits option.splits
           dest!: renderTaskQuestions_done)

text \<open>
  Whatever the backend answers and whatever is cached, the container ends as the
  banner alone, the banner with the hint to go back, the empty state, or the question
  cards alone: the banner and the questions are never shown together.
\<close>

lemma generateQuestionsForTopic_container:
  "(\<exists>m. questionsContainer (fst (generateQuestionsForTopic env td st)) = [ErrorBanner m])
   \<or> (\<exists>m. questionsContainer (fst (generateQuestionsForTopic env td st)) = [ErrorBanner m, BackToSubjects])
   \<or> questionsContainer (fst (generateQuestionsForTopic env td st)) = [NoQuestionsBlock]
   \<or> (\<exists>cards. questionsContainer (fst (generateQuestionsForTopic env td st)) = [QuestionsBlock cards])"
proof (cases "try_generate env td st")
  case (Pair p eo)
  obtain st' td' where p: "p = (st', td')" by (cases p)
  show ?thesis
  proof (cases eo)
    case None
    have "questionsContainer st' = [NoQuestionsBlock] \<or> (\<exists>cards. questionsContainer st' = [QuestionsBlock cards])"
      using Pair p None by (auto dest: try_generate_done)
    with Pair p None show ?thesis by (simp add: generateQuestionsForTopic_def)
  next
    case (Some err)
    define st1 where "st1 = st'\<lparr>questionsContainer := [ErrorBanner (message err)]\<rparr>"
    show ?thesis
    proof (cases "has_questions env (td_questions td')")
      case (Inl e)
      with Pair p Some show ?thesis by (simp add: generateQuestionsForTopic_def)
    next
      case (Inr b)
      show ?thesis
      proof (cases b)
        case True
        with Pair p Some Inr have "generateQuestionsForTopic env td st = renderTaskQuestions env (td_questions td') st1"
          by (simp add: generateQuestionsForTopic_def st1_def)
        with renderTaskQuestions_container [of env "td_questions td'" st1]
        show ?thesis by (auto simp: st1_def)
      next
        case False
        with Pair p Some Inr show ?thesis by (simp add: generateQuestionsForTopic_def)
      qed
    qed
  qed
qed

text \<open>Rendering and generating questions never touch the stored history.\<close>

lemma renderTaskQuestions_history:
  "taskHistory (fst (renderTaskQuestions env qs st)) = taskHistory st"
  by (auto simp: renderTaskQuestions_def Let_def split: jsval.splits sum.splits)

lemma store_topic_questions_history:
  "taskHistory (store_topic_questions td qs st) = taskHistory st"
  by (auto simp: store_topic_questions_def saveState_def split: option.splits)

lemma try_generate_history:
  "taskHistory (fst (fst (try_generate env td st))) = taskHistory st"
proof -
  have r: "\<And>q s. taskHistory (fst (renderTaskQuestions env q s)) = taskHistory s"
    by (rule renderTaskQuestions_history)
  show ?thesis
    unfolding try_generate_def Let_def
    by (auto split: sum.splits prod.splits option.splits
             simp: store_topic_questions_history dest: arg_cong [where f = "\<lambda>p. taskHistory (fst p)"]
             simp: r)
qed

lemma generateQuestionsForTopic_history:
  "taskHistory (fst (generateQuestionsForTopic env td st)) = taskHistory st"
  using try_generate_history [of env td st]
  by (auto simp: generateQuestionsForTopic_def Let_def renderTaskQuestions_history
           split: prod.splits option.splits sum.splits bool.splits)

section \<open>Deleting and creating subjects\<close>

lemma filter_other_ids:
  "distinct (map f xs) \<Longrightarrow> s \<in> set xs \<Longrightarrow> filter (\<lambda>x. f x \<noteq> f s) xs = remove1 s xs"
proof (induction xs)
  case Nil
  then show ?case by simp
next
  case (Cons x xs)
  show ?case
  proof (cases "x = s")
    case True
    with Cons.prems have "\<forall>y\<in>set xs. f y \<noteq> f s" by (auto simp: image_iff)
    then have "filter (\<lambda>x. f x \<noteq> f s) xs = xs" by (simp add: filter_id_conv)
    with True show ?thesis by simp
  next
    case False
    with Cons.prems have "f x \<noteq> f s" by (auto simp: image_iff)
    with False Cons show ?thesis by simp
  qed
qed

text \<open>Rebuilding the cards changes neither the subjects nor anything stored.\<close>

lemma renderSubjects_frame:
  "subjects (fst (renderSubjects env st)) = subjects st
   \<and> stored_subjects (fst (renderSubjects env st)) = stored_subjects st
   \<and> currentTaskData (fst (renderSubjects env st)) = currentTaskData st
   \<and> taskHistory (fst (renderSubjects env st)) = taskHistory st"
  by (auto simp: renderSubjects_def split: sum.splits)

lemma renderSubjects_result:
  "renderSubjects env st = (st', e) \<Longrightarrow>
     subjects st' = subjects st \<and> stored_subjects st' = stored_subjects st"
  using renderSubjects_frame [of env st] by simp

text \<open>
  Claim C8 as stated fails when the user declines the confirmation dialog: the subject
  with the given id exists and is still there after \<open>deleteSubject\<close>.
\<close>

theorem deleteSubject_declined_keeps_subject:
  "subjects (fst (deleteSubject declining_env 1700000000000
                    (empty_app\<lparr>subjects := [python_subject, java_subject]\<rparr>))) =
     [python_subject, java_subject]
   \<and> subj_id python_subject = 1700000000000"
  by (simp add: deleteSubject_def declining_env_def offline_env_def empty_app_def python_subject_def)

text \<open>
  Claim C8, amended. In a collection with unique ids that contains the subject \<open>s\<close>:
  if the user confirms the dialog, \<open>deleteSubject\<close> with the id of \<open>s\<close> removes \<open>s\<close> and
  nothing else, keeps the other subjects as they were and in their order, and has
  stored the new collection when it returns, the stored copy equal to the one in
  memory; if the user declines, nothing changes.
\<close>

theorem deleteSubject_removes_exactly:
  assumes "distinct (map subj_id (subjects st))" and "s \<in> set (subjects st)"
  shows "(confirm_ok env \<longrightarrow>
            subjects (fst (deleteSubject env (subj_id s) st)) = remove1 s (subjects st)
            \<and> stored_subjects (fst (deleteSubject env (subj_id s) st)) = Some (remove1 s (subjects st))
            \<and> s \<notin> set (remove1 s (subjects st))
            \<and> (\<forall>t \<in> set (subjects st). t \<noteq> s \<longrightarrow> t \<in> set (remove1 s (subjects st))))
         \<and> (\<not> confirm_ok env \<longrightarrow> deleteSubject env (subj_id s) st = (st, None))"
proof -
  have d: "distinct (subjects st)" using assms(1) by (simp add: distinct_map)
  have "filter (\<lambda>x. subj_id x \<noteq> subj_id s) (subjects st) = remove1 s (subjects st)"
    using assms by (rule filter_other_ids)
  then show ?thesis
    using d by (auto simp: deleteSubject_def saveState_def renderSubjects_frame)
qed

text \<open>The amended claim on the collection of the subjects Python and Java, deleting Python.\<close>

theorem deleteSubject_removes_exactly_witness:
  "subjects (fst (deleteSubject offline_env 1700000000000
                    (empty_app\<lparr>subjects := [python_subject, java_subject]\<rparr>))) = [java_subject]
   \<and> stored_subjects (fst (deleteSubject offline_env 1700000000000
                    (empty_app\<lparr>subjects := [python_subject, java_subject]\<rparr>))) = Some [java_subject]"
  using deleteSubject_removes_exactly [of "empty_app\<lparr>subjects := [python_subject, java_subject]\<rparr>"
          python_subject offline_env]
  by (simp add: empty_app_def python_subject_def java_subject_def offline_env_def)

lemma new_subject_name:
  "new_subject env n r = Inr s \<Longrightarrow> subj_name s = n"
  by (auto simp: new_subject_def and_then_def split: sum.splits jsval.splits)

text \<open>
  The call up to the \<^verbatim>\<open>await\<close> changes neither the subjects nor the stored subjects. It
  is suspended only for a name that is not empty and that no subject has; then the
  request for that name has been made.
\<close>

lemma generateSubject_call_frame:
  "subjects (fst (generateSubject_call env st)) = subjects st
   \<and> stored_subjects (fst (generateSubject_call env st)) = stored_subjects st"
  by (simp add: generateSubject_call_def Let_def split: option.splits)

lemma generateSubject_call_awaiting:
  "generateSubject_call env st = (st', Awaiting n r) \<Longrightarrow>
     st' = st \<and> n = trim (subjectInput st) \<and> n \<noteq> []
     \<and> find (\<lambda>s. toLowerCase (subj_name s) = toLowerCase n) (subjects st) = None
     \<and> r = snd (generateContent env (JStr n))"
  by (auto simp: generateSubject_call_def Let_def split: if_splits option.splits)

text \<open>
  What the continuation does to the subjects: nothing, in memory and in the store; or
  the promise resolved to a response, the response gave a subject, and that subject
  was put in front of the subjects of that moment and stored.
\<close>

lemma generateSubject_resume_subjects:
  "subjects (generateSubject_resume env n r st) = subjects st
     \<and> stored_subjects (generateSubject_resume env n r st) = stored_subjects st
   \<or> (\<exists>response s.
         r = Inr response
         \<and> new_subject env n response = Inr s
         \<and> subjects (generateSubject_resume env n r st) = s # subjects st
         \<and> stored_subjects (generateSubject_resume env n r st) = Some (s # subjects st))"
  by (auto simp: generateSubject_resume_def Let_def saveState_def dest!: renderSubjects_result
           split: sum.splits prod.splits option.splits)

text \<open>
  What a call of \<open>generateSubject\<close> that nothing interrupts does to the subjects: nothing,
  in memory and in the store; or no existing subject has the requested name, the
  backend call returned a response, the response gave a subject, and that subject was
  put in front and stored.
\<close>

lemma generateSubject_subjects:
  "subjects (generateSubject env st) = subjects st
     \<and> stored_subjects (generateSubject env st) = stored_subjects st
   \<or> (\<exists>response s.
         find (\<lambda>s. toLowerCase (subj_name s) = toLowerCase (trim (subjectInput st)))
           (subjects st) = None
         \<and> trim (subjectInput st) \<noteq> []
         \<and> snd (generateContent env (JStr (trim (subjectInput st)))) = Inr response
         \<and> new_subject env (trim (subjectInput st)) response = Inr s
         \<and> subjects (generateSubject env st) = s # subjects st
         \<and> stored_subjects (generateSubject env st) = Some (s # subjects st))"
proof (cases "generateSubject_call env st")
  case (Pair st' pr)
  show ?thesis
  proof (cases pr)
    case Returned
    with Pair generateSubject_call_frame [of env st] show ?thesis
      by (simp add: generateSubject_def)
  next
    case (Awaiting n r)
    with Pair have c: "generateSubject_call env st = (st', Awaiting n r)" by simp
    from generateSubject_call_awaiting [OF c]
    have i: "st' = st" "n = trim (subjectInput st)" "n \<noteq> []"
            "find (\<lambda>s. toLowerCase (subj_name s) = toLowerCase n) (subjects st) = None"
            "r = snd (generateContent env (JStr n))"
      by blast+
    from c i(1) have g: "generateSubject env st = generateSubject_resume env n r st"
      by (simp add: generateSubject_def)
    from generateSubject_resume_subjects [of env n r st] g i show ?thesis
      by auto
  qed
qed

text \<open>
  The duplicate check: if a subject of the collection has the requested name (the
  trimmed input) case-insensitively, the call of \<open>generateSubject\<close> returns before its
  \<^verbatim>\<open>await\<close>, so no request is made and no continuation will run, and the collection is
  unchanged, in memory and in the store.
\<close>

lemma generateSubject_call_duplicate:
  assumes "\<exists>s \<in> set (subjects st). same_name (subj_name s) (trim (subjectInput st))"
  shows "snd (generateSubject_call env st) = Returned
         \<and> subjects (fst (generateSubject_call env st)) = subjects st
         \<and> stored_subjects (fst (generateSubject_call env st)) = stored_subjects st"
proof -
  from assms
  have "find (\<lambda>s. toLowerCase (subj_name s) = toLowerCase (trim (subjectInput st)))
          (subjects st) \<noteq> None"
    by (auto simp: find_None_iff same_name_def)
  then show ?thesis
    by (auto simp: generateSubject_call_def Let_def)
qed

text \<open>
  Claim C9. Subject creation is to keep the invariant that no two subjects of the
  collection share a name case-insensitively. The code breaks it: on a page without
  subjects the user enters "Python" and presses Enter twice before the backend has
  answered. Both calls pass the check of l.40-47, since no subject exists yet, and
  both are suspended at l.54; when the two responses arrive, each continuation puts
  its subject in front (l.70) without looking at the collection again. The
  collection, in memory and in the store, then holds two subjects named "Python":
  the names were unique before and are not unique after.
\<close>

theorem generateSubject_overlapping_calls_duplicate:
  "unique_names (subjects (empty_app\<lparr>subjectInput := ''Python''\<rparr>))
   \<and> subjects (fst (run [(online_env, Enter), (online_env, Enter),
                          (online_env, Arrives 0), (later_env, Arrives 0)]
                         (empty_app\<lparr>subjectInput := ''Python''\<rparr>, []))) =
       [python_subject\<lparr>subj_id := 1700000000250, createdAt := ''2023-11-14T22:13:20.250Z''\<rparr>,
        python_subject]
   \<and> stored_subjects (fst (run [(online_env, Enter), (online_env, Enter),
                                 (online_env, Arrives 0), (later_env, Arrives 0)]
                                (empty_app\<lparr>subjectInput := ''Python''\<rparr>, []))) =
       Some [python_subject\<lparr>subj_id := 1700000000250, createdAt := ''2023-11-14T22:13:20.250Z''\<rparr>,
             python_subject]
   \<and> unique_names
        [python_subject\<lparr>subj_id := 1700000000250, createdAt := ''2023-11-14T22:13:20.250Z''\<rparr>,
         python_subject] = False"
  by code_simp

text \<open>
  The defect is confined to overlapping calls for one name. A call of \<open>generateSubject\<close>
  that nothing interrupts keeps the names unique, whatever the backend answers.
\<close>

lemma generateSubject_keeps_unique_names:
  assumes u: "unique_names (subjects st)"
  shows "unique_names (subjects (generateSubject env st))"
  using generateSubject_subjects [of env st]
proof (elim disjE exE conjE)
  assume "subjects (generateSubject env st) = subjects st"
  with u show ?thesis by simp
next
  fix response s
  assume f: "find (\<lambda>s. toLowerCase (subj_name s) = toLowerCase (trim (subjectInput st)))
               (subjects st) = None"
    and n: "new_subject env (trim (subjectInput st)) response = Inr s"
    and e: "subjects (generateSubject env st) = s # subjects st"
  from n have "subj_name s = trim (subjectInput st)" by (rule new_subject_name)
  with f have "toLowerCase (subj_name s) \<notin> set (map (\<lambda>s. toLowerCase (subj_name s)) (subjects st))"
    by (auto simp: find_None_iff)
  with u e show ?thesis by (simp add: unique_names_def)
qed

text \<open>
  More generally, the names stay apart under every event that does not ask for a name
  in flight, and so through every sequence of events without overlap: the user may
  type, create and delete subjects, with several calls suspended at a time and their
  responses arriving in any order, as long as no two suspended calls are for one name.
\<close>

lemma distinct_filter_left:
  "distinct (map f (map g xs @ ys)) \<Longrightarrow> distinct (map f (map g (filter P xs) @ ys))"
  by (induction xs) auto

lemma distinct_without:
  "distinct (map f (xs @ ys @ c # zs)) \<Longrightarrow> distinct (map f (xs @ ys @ zs))"
  by auto

lemma distinct_moved:
  "distinct (map f (xs @ ys @ c # zs)) \<Longrightarrow> distinct (map f (c # xs @ ys @ zs))"
  by auto

lemma dispatch_names_apart:
  assumes a: "names_apart pg" and n: "not_in_flight ev pg"
  shows "names_apart (dispatch env ev pg)"
proof (cases pg)
  case (Pair st calls)
  show ?thesis
  proof (cases ev)
    case (Typed s)
    with a Pair show ?thesis by (simp add: names_apart_def)
  next
    case Enter
    show ?thesis
    proof (cases "generateSubject_call env st")
      case (Pair st' pr)
      note c = this
      show ?thesis
      proof (cases pr)
        case Returned
        with c generateSubject_call_frame [of env st] a \<open>pg = (st, calls)\<close> Enter
        show ?thesis by (simp add: names_apart_def)
      next
        case (Awaiting nm r)
        with c have c': "generateSubject_call env st = (st', Awaiting nm r)" by simp
        from generateSubject_call_awaiting [OF c']
        have st: "st' = st" and nm: "nm = trim (subjectInput st)"
          and f: "find (\<lambda>s. toLowerCase (subj_name s) = toLowerCase nm) (subjects st) = None"
          by blast+
        from f have 1: "toLowerCase nm \<notin> toLowerCase ` subj_name ` set (subjects st)"
          by (auto simp: find_None_iff)
        from n Enter \<open>pg = (st, calls)\<close> nm
        have 2: "toLowerCase nm \<notin> toLowerCase ` fst ` set calls"
          by (auto simp: not_in_flight_def list_all_iff)
        from a \<open>pg = (st, calls)\<close> 1 2 c' st Enter show ?thesis
          by (auto simp: names_apart_def)
      qed
    qed
  next
    case (Delete sid)
    from a Pair
    have d: "distinct (map toLowerCase (map subj_name (subjects st) @ map fst calls))"
      by (simp only: names_apart_def fst_conv snd_conv)
    have "distinct (map toLowerCase
            (map subj_name (subjects (fst (deleteSubject env sid st))) @ map fst calls))"
    proof (cases "confirm_ok env")
      case True
      then have "subjects (fst (deleteSubject env sid st)) =
                   filter (\<lambda>s. subj_id s \<noteq> sid) (subjects st)"
        by (simp add: deleteSubject_def saveState_def renderSubjects_frame)
      with d show ?thesis by (simp only: distinct_filter_left)
    next
      case False
      then have "subjects (fst (deleteSubject env sid st)) = subjects st"
        by (simp add: deleteSubject_def)
      with d show ?thesis by (simp only:)
    qed
    with Pair Delete show ?thesis
      by (simp only: names_apart_def dispatch.simps fst_conv snd_conv)
  next
    case (Arrives i)
    show ?thesis
    proof (cases "i < length calls")
      case False
      with a Pair Arrives show ?thesis by simp
    next
      case True
      then have split: "calls = take i calls @ (calls ! i) # drop (Suc i) calls"
        by (rule id_take_nth_drop)
      obtain nm r where ci: "calls ! i = (nm, r)" by (cases "calls ! i")
      have d: "distinct (map toLowerCase (map subj_name (subjects st)
                 @ map fst (take i calls) @ nm # map fst (drop (Suc i) calls)))"
      proof -
        have "map fst calls = map fst (take i calls) @ nm # map fst (drop (Suc i) calls)"
          using split ci by (metis fst_conv list.simps(9) map_append)
        with a Pair show ?thesis by (simp add: names_apart_def)
      qed
      from generateSubject_resume_subjects [of env nm r st]
      show ?thesis
      proof (elim disjE exE conjE)
        assume "subjects (generateSubject_resume env nm r st) = subjects st"
        with d Pair Arrives True ci show ?thesis
          by (auto simp: names_apart_def)
      next
        fix response s
        assume ns: "new_subject env nm response = Inr s"
          and e: "subjects (generateSubject_resume env nm r st) = s # subjects st"
        from ns have "subj_name s = nm" by (rule new_subject_name)
        with d e Pair Arrives True ci show ?thesis
          by (auto simp: names_apart_def)
      qed
    qed
  qed
qed

lemma run_names_apart:
  "names_apart pg \<Longrightarrow> no_overlap es pg \<Longrightarrow> names_apart (run es pg)"
proof (induction es arbitrary: pg)
  case Nil
  then show ?case by simp
next
  case (Cons x es)
  obtain env ev where x: "x = (env, ev)" by (cases x)
  with Cons.prems have "names_apart (dispatch env ev pg)" and "no_overlap es (dispatch env ev pg)"
    by (simp_all add: dispatch_names_apart)
  with Cons.IH x show ?case by simp
qed

lemma run_keeps_unique_names:
  assumes "unique_names (subjects st)" and "no_overlap es (st, [])"
  shows "unique_names (subjects (fst (run es (st, []))))"
proof -
  from assms(1) have "names_apart (st, [])"
    by (simp add: names_apart_def unique_names_def comp_def)
  then have "names_apart (run es (st, []))"
    using assms(2) by (rule run_names_apart)
  then show ?thesis
    by (simp add: names_apart_def unique_names_def comp_def)
qed

text \<open>
  For example, the user asks for "Python" and, before the backend has answered, for
  "Java"; the response for Java arrives first. These events do not overlap, and the
  names are unique afterwards. The two presses of Enter on "Python" above do overlap.
\<close>

lemma run_keeps_unique_names_example:
  "no_overlap [(online_env, Enter), (online_env, Typed ''Java''), (online_env, Enter),
               (online_env, Arrives 1), (later_env, Arrives 0)]
              (empty_app\<lparr>subjectInput := ''Python''\<rparr>, [])
   \<and> unique_names (subjects (fst (run
         [(online_env, Enter), (online_env, Typed ''Java''), (online_env, Enter),
          (online_env, Arrives 1), (later_env, Arrives 0)]
         (empty_app\<lparr>subjectInput := ''Python''\<rparr>, []))))
   \<and> map subj_name (subjects (fst (run
         [(online_env, Enter), (online_env, Typed ''Java''), (online_env, Enter),
          (online_env, Arrives 1), (later_env, Arrives 0)]
         (empty_app\<lparr>subjectInput := ''Python''\<rparr>, [])))) = [''Python'', ''Java'']
   \<and> no_overlap [(online_env, Enter), (online_env, Enter),
                  (online_env, Arrives 0), (later_env, Arrives 0)]
                 (empty_app\<lparr>subjectInput := ''Python''\<rparr>, []) = False"
proof -
  have a: "no_overlap [(online_env, Enter), (online_env, Typed ''Java''), (online_env, Enter),
                       (online_env, Arrives 1), (later_env, Arrives 0)]
                      (empty_app\<lparr>subjectInput := ''Python''\<rparr>, [])"
    by code_simp
  have b: "unique_names (subjects (empty_app\<lparr>subjectInput := ''Python''\<rparr>))"
    by (simp add: unique_names_def empty_app_def)
  have c: "map subj_name (subjects (fst (run
             [(online_env, Enter), (online_env, Typed ''Java''), (online_env, Enter),
              (online_env, Arrives 1), (later_env, Arrives 0)]
             (empty_app\<lparr>subjectInput := ''Python''\<rparr>, [])))) = [''Python'', ''Java'']"
    by code_simp
  have d: "no_overlap [(online_env, Enter), (online_env, Enter),
                       (online_env, Arrives 0), (later_env, Arrives 0)]
                      (empty_app\<lparr>subjectInput := ''Python''\<rparr>, []) = False"
    by code_simp
  from run_keeps_unique_names [OF b a] a c d show ?thesis
    by (simp only: simp_thms)
qed

text \<open>
  Claim C10. If the backend call of \<open>generateSubject\<close> throws, the subjects in memory
  and the stored subjects are exactly as before. If either of them differs after
  \<open>generateSubject\<close>, the call returned a response, the response gave a subject, and the
  collection is the old one with that subject in front, stored as such.
\<close>

theorem generateSubject_atomic:
  "(snd (generateContent env (JStr (trim (subjectInput st)))) = Inl e \<longrightarrow>
       subjects (generateSubject env st) = subjects st
       \<and> stored_subjects (generateSubject env st) = stored_subjects st)
   \<and> (subjects (generateSubject env st) \<noteq> subjects st
        \<or> stored_subjects (generateSubject env st) \<noteq> stored_subjects st \<longrightarrow>
       (\<exists>response s. snd (generateContent env (JStr (trim (subjectInput st)))) = Inr response
          \<and> new_subject env (trim (subjectInput st)) response = Inr s
          \<and> subjects (generateSubject env st) = s # subjects st
          \<and> stored_subjects (generateSubject env st) = Some (s # subjects st)))"
  using generateSubject_subjects [of env st] by auto

text \<open>
  Claim C10 for the input "Python" on an empty collection: offline the call throws
  and nothing is added or stored; online the subject is added and stored.
\<close>

theorem generateSubject_atomic_witness:
  "snd (generateContent offline_env (JStr (trim ''Python''))) =
     Inl (ConnectivityError ''Failed to fetch'')
   \<and> subjects (generateSubject offline_env (empty_app\<lparr>subjectInput := ''Python''\<rparr>)) = []
   \<and> stored_subjects (generateSubject offline_env (empty_app\<lparr>subjectInput := ''Python''\<rparr>)) = None
   \<and> subjects (generateSubject online_env (empty_app\<lparr>subjectInput := ''Python''\<rparr>)) =
       [python_subject]
   \<and> stored_subjects (generateSubject online_env (empty_app\<lparr>subjectInput := ''Python''\<rparr>)) =
       Some [python_subject]"
proof -
  have a: "snd (generateContent offline_env (JStr (trim ''Python''))) =
             Inl (ConnectivityError ''Failed to fetch'')"
    by code_simp
  have b: "subjects (generateSubject online_env (empty_app\<lparr>subjectInput := ''Python''\<rparr>)) =
             [python_subject]"
    by code_simp
  have c: "stored_subjects (generateSubject online_env (empty_app\<lparr>subjectInput := ''Python''\<rparr>)) =
             Some [python_subject]"
    by code_simp
  show ?thesis
    using a b c
      generateSubject_atomic [of offline_env "empty_app\<lparr>subjectInput := ''Python''\<rparr>"
         "ConnectivityError ''Failed to fetch''"]
    by (simp add: empty_app_def)
qed

end
